theory Spec2Isabelle
  imports Complex_Main "HOL-Library.Word" "HOL-Library.Log_Nat"
begin

section \<open>The game state (package game)\<close>

text \<open>
  Go's \<open>int\<close> is a 64-bit two's complement integer. Coordinates, sizes and loop indices are
  modelled as \<open>int\<close>: the only arithmetic on them is \<open>x + dx\<close> with \<open>dx\<close> in \<open>{-1, 0, 1}\<close>, whose
  result is used only after \<open>IsValidCoordinate\<close>; a sum that would wrap in Go is negative there
  and is at least \<open>2 ^ 63\<close> here, so it is rejected by the bounds check in both readings.
  The counters \<open>Clicks\<close> and \<open>MineCount\<close> are incremented without any check, so they are 64-bit
  words and \<open>+ 1\<close> wraps as the machine does.

  A slice read or write outside its length panics in Go. Every function that indexes a matrix
  returns an \<open>option\<close>, and \<open>None\<close> is the panic.
\<close>

type_synonym GameStatus = string

definition StatusPlaying :: GameStatus where
  "StatusPlaying = ''playing''"

definition StatusWon :: GameStatus where
  "StatusWon = ''won''"

definition StatusLost :: GameStatus where
  "StatusLost = ''lost''"

datatype Coordinate = Coordinate (X: int) (Y: int)

text \<open>\<open>time.Time\<close>: \<open>None\<close> is the zero time, \<open>Some t\<close> an instant read from the clock.\<close>

type_synonym Time = "nat option"

record GameState =
  Size :: int
  Seed :: "64 word"
  Level :: int
  Status :: GameStatus
  MineMap :: "bool list list"
  Revealed :: "bool list list"
  HintCells :: "Coordinate list"
  MineCount :: "64 word"
  StartedAt :: Time
  EndedAt :: Time
  Clicks :: "64 word"

text \<open>\<open>m[x][y]\<close> and \<open>m[x][y] = v\<close> on a slice of slices, with the run-time bounds checks.\<close>

definition index2 :: "bool list list \<Rightarrow> int \<Rightarrow> int \<Rightarrow> bool option" where
  "index2 m x y =
     (if 0 \<le> x \<and> x < int (length m)
      then (if 0 \<le> y \<and> y < int (length (m ! nat x))
            then Some (m ! nat x ! nat y) else None)
      else None)"

definition store2 :: "bool list list \<Rightarrow> int \<Rightarrow> int \<Rightarrow> bool \<Rightarrow> bool list list option" where
  "store2 m x y v =
     (if 0 \<le> x \<and> x < int (length m)
      then (if 0 \<le> y \<and> y < int (length (m ! nat x))
            then Some (m[nat x := (m ! nat x)[nat y := v]]) else None)
      else None)"

text \<open>\<open>NewGameState\<close>: \<open>make\<close> with a negative length panics.\<close>

definition NewGameState :: "int \<Rightarrow> 64 word \<Rightarrow> nat \<Rightarrow> GameState option" where
  "NewGameState n seed now =
     (if n < 0 then None
      else Some \<lparr> Size = n, Seed = seed, Level = 0, Status = StatusPlaying,
                  MineMap = replicate (nat n) (replicate (nat n) False),
                  Revealed = replicate (nat n) (replicate (nat n) False),
                  HintCells = [], MineCount = 0, StartedAt = Some now, EndedAt = None,
                  Clicks = 0 \<rparr>)"

definition IsValidCoordinate :: "GameState \<Rightarrow> int \<Rightarrow> int \<Rightarrow> bool" where
  "IsValidCoordinate g x y \<longleftrightarrow> x \<ge> 0 \<and> x < Size g \<and> y \<ge> 0 \<and> y < Size g"

definition IsMine :: "GameState \<Rightarrow> int \<Rightarrow> int \<Rightarrow> bool option" where
  "IsMine g x y =
     (if \<not> IsValidCoordinate g x y then Some False
      else index2 (MineMap g) x y)"

definition IsRevealed :: "GameState \<Rightarrow> int \<Rightarrow> int \<Rightarrow> bool option" where
  "IsRevealed g x y =
     (if \<not> IsValidCoordinate g x y then Some False
      else index2 (Revealed g) x y)"

text \<open>
  \<open>Reveal\<close> and \<open>SetMine\<close> mutate the receiver; the model returns the Go result together with
  the state after the call.
\<close>

definition Reveal :: "GameState \<Rightarrow> int \<Rightarrow> int \<Rightarrow> (bool \<times> GameState) option" where
  "Reveal g x y =
     (if \<not> IsValidCoordinate g x y then Some (False, g)
      else (case index2 (Revealed g) x y of
              None \<Rightarrow> None
            | Some r \<Rightarrow>
                if r then Some (False, g)
                else (case store2 (Revealed g) x y True of
                        None \<Rightarrow> None
                      | Some m \<Rightarrow> Some (True, g\<lparr>Revealed := m, Clicks := Clicks g + 1\<rparr>))))"

definition SetMine :: "GameState \<Rightarrow> int \<Rightarrow> int \<Rightarrow> (bool \<times> GameState) option" where
  "SetMine g x y =
     (if \<not> IsValidCoordinate g x y then Some (False, g)
      else (case index2 (MineMap g) x y of
              None \<Rightarrow> None
            | Some b \<Rightarrow>
                if \<not> b
                then (case store2 (MineMap g) x y True of
                        None \<Rightarrow> None
                      | Some m \<Rightarrow> Some (True, g\<lparr>MineMap := m, MineCount := MineCount g + 1\<rparr>))
                else Some (True, g)))"

text \<open>
  The two nested loops \<open>for dx := -1; dx <= 1; dx++ { for dy := -1; dy <= 1; dy++\<close> with
  \<open>continue\<close> at \<open>dx == 0 && dy == 0\<close> visit these offsets, in this order.
\<close>

definition neighbor_offsets :: "(int \<times> int) list" where
  "neighbor_offsets =
     concat (map (\<lambda>dx. concat (map (\<lambda>dy. if dx = 0 \<and> dy = 0 then [] else [(dx, dy)])
                                     [-1, 0, 1])) [-1, 0, 1])"

fun count_mines :: "GameState \<Rightarrow> int \<Rightarrow> int \<Rightarrow> (int \<times> int) list \<Rightarrow> int \<Rightarrow> int option" where
  "count_mines g x y [] count = Some count"
| "count_mines g x y (d # ds) count =
     (case IsMine g (x + fst d) (y + snd d) of
        None \<Rightarrow> None
      | Some b \<Rightarrow> count_mines g x y ds (if b then count + 1 else count))"

definition AdjacentMines :: "GameState \<Rightarrow> int \<Rightarrow> int \<Rightarrow> int option" where
  "AdjacentMines g x y = count_mines g x y neighbor_offsets 0"

definition GetNeighbors :: "GameState \<Rightarrow> int \<Rightarrow> int \<Rightarrow> Coordinate list" where
  "GetNeighbors g x y =
     map (\<lambda>d. Coordinate (x + fst d) (y + snd d))
       (filter (\<lambda>d. IsValidCoordinate g (x + fst d) (y + snd d)) neighbor_offsets)"

text \<open>
  \<open>UnrevealedSafeCells\<close>: both loops run over \<open>0 .. Size - 1\<close>; \<open>Revealed[x][y]\<close> is read only
  when \<open>MineMap[x][y]\<close> is false (\<open>&&\<close> short-circuits).
\<close>

fun count_unrevealed :: "GameState \<Rightarrow> (int \<times> int) list \<Rightarrow> int \<Rightarrow> int option" where
  "count_unrevealed g [] count = Some count"
| "count_unrevealed g (c # cs) count =
     (case index2 (MineMap g) (fst c) (snd c) of
        None \<Rightarrow> None
      | Some m \<Rightarrow>
          if \<not> m
          then (case index2 (Revealed g) (fst c) (snd c) of
                  None \<Rightarrow> None
                | Some r \<Rightarrow> count_unrevealed g cs (if \<not> r then count + 1 else count))
          else count_unrevealed g cs count)"

definition grid_indices :: "int \<Rightarrow> (int \<times> int) list" where
  "grid_indices n = concat (map (\<lambda>x. map (\<lambda>y. (x, y)) [0..n - 1]) [0..n - 1])"

definition UnrevealedSafeCells :: "GameState \<Rightarrow> int option" where
  "UnrevealedSafeCells g = count_unrevealed g (grid_indices (Size g)) 0"

definition CheckVictory :: "GameState \<Rightarrow> bool option" where
  "CheckVictory g = map_option (\<lambda>n. n = 0) (UnrevealedSafeCells g)"

definition SetWon :: "GameState \<Rightarrow> nat \<Rightarrow> GameState" where
  "SetWon g now = g\<lparr>Status := StatusWon, EndedAt := Some now\<rparr>"

definition SetLost :: "GameState \<Rightarrow> nat \<Rightarrow> GameState" where
  "SetLost g now = g\<lparr>Status := StatusLost, EndedAt := Some now\<rparr>"

definition AddHintCell :: "GameState \<Rightarrow> int \<Rightarrow> int \<Rightarrow> GameState" where
  "AddHintCell g x y = g\<lparr>HintCells := HintCells g @ [Coordinate x y]\<rparr>"

text \<open>
  \<open>Clone\<close> copies the scalar fields and rebuilds both matrices with \<open>Size\<close> rows of \<open>Size\<close>
  cells: \<open>make\<close> panics on a negative size, \<open>g.MineMap[i]\<close> panics when the matrix has fewer
  than \<open>Size\<close> rows, and \<open>copy\<close> moves \<open>min (len dst) (len src)\<close> cells, so a short row is
  padded with \<open>false\<close> and a long one is cut.
\<close>

definition copy_row :: "nat \<Rightarrow> bool list \<Rightarrow> bool list" where
  "copy_row n src = take n src @ replicate (n - length src) False"

definition clone_matrix :: "int \<Rightarrow> bool list list \<Rightarrow> bool list list option" where
  "clone_matrix n m =
     (if n < 0 \<or> int (length m) < n then None
      else Some (map (copy_row (nat n)) (take (nat n) m)))"

definition Clone :: "GameState \<Rightarrow> GameState option" where
  "Clone g =
     (case clone_matrix (Size g) (MineMap g) of
        None \<Rightarrow> None
      | Some mm \<Rightarrow>
          (case clone_matrix (Size g) (Revealed g) of
             None \<Rightarrow> None
           | Some rv \<Rightarrow> Some (g\<lparr>MineMap := mm, Revealed := rv\<rparr>)))"

subsection \<open>The data-model invariants\<close>

definition wf_state :: "GameState \<Rightarrow> bool" where
  "wf_state g \<longleftrightarrow>
     int (length (MineMap g)) = Size g \<and> int (length (Revealed g)) = Size g \<and>
     list_all (\<lambda>row. int (length row) = Size g) (MineMap g) \<and>
     list_all (\<lambda>row. int (length row) = Size g) (Revealed g)"

definition count_true :: "bool list list \<Rightarrow> nat" where
  "count_true m = sum_list (map (\<lambda>row. length (filter (\<lambda>b. b) row)) m)"

definition mine_count_ok :: "GameState \<Rightarrow> bool" where
  "mine_count_ok g \<longleftrightarrow> MineCount g = of_nat (count_true (MineMap g))"

section \<open>The flood-fill of the reconciler (bfsPropagation)\<close>

text \<open>
  \<open>visited\<close> is a Go map keyed by \<open>Sprintf "%d,%d"\<close> of the coordinate. The key is injective
  on pairs of integers, so the map is the set of coordinates it holds. The inner \<open>for\<close> over
  \<open>GetNeighbors\<close> is \<open>enqueue_neighbors\<close>; the tests are made in the source's order
  (\<open>!visited && !IsRevealed && !IsMine\<close>, short-circuit).
\<close>

fun enqueue_neighbors ::
  "GameState \<Rightarrow> Coordinate list \<Rightarrow> Coordinate set \<times> Coordinate list \<Rightarrow>
     (Coordinate set \<times> Coordinate list) option" where
  "enqueue_neighbors state [] (visited, queue) = Some (visited, queue)"
| "enqueue_neighbors state (neighbor # rest) (visited, queue) =
     (if neighbor \<notin> visited
      then (case IsRevealed state (X neighbor) (Y neighbor) of
              None \<Rightarrow> None
            | Some r \<Rightarrow>
                if \<not> r
                then (case IsMine state (X neighbor) (Y neighbor) of
                        None \<Rightarrow> None
                      | Some m \<Rightarrow>
                          if \<not> m
                          then enqueue_neighbors state rest
                                 (insert neighbor visited, queue @ [neighbor])
                          else enqueue_neighbors state rest (visited, queue))
                else enqueue_neighbors state rest (visited, queue))
      else enqueue_neighbors state rest (visited, queue))"

definition grid :: "GameState \<Rightarrow> Coordinate set" where
  "grid g = {c. IsValidCoordinate g (X c) (Y c)}"

lemma finite_grid: "finite (grid g)"
proof -
  have "grid g \<subseteq> (\<lambda>(x, y). Coordinate x y) ` ({0..<Size g} \<times> {0..<Size g})"
  proof
    fix c assume "c \<in> grid g"
    then have "(X c, Y c) \<in> {0..<Size g} \<times> {0..<Size g}"
      by (simp add: grid_def IsValidCoordinate_def)
    then have "(\<lambda>(x, y). Coordinate x y) (X c, Y c) \<in> (\<lambda>(x, y). Coordinate x y) ` ({0..<Size g} \<times> {0..<Size g})"
      by (rule imageI)
    then show "c \<in> (\<lambda>(x, y). Coordinate x y) ` ({0..<Size g} \<times> {0..<Size g})" by simp
  qed
  then show ?thesis by (rule finite_subset) simp
qed

lemma GetNeighbors_grid: "set (GetNeighbors g x y) \<subseteq> grid g"
  by (auto simp: GetNeighbors_def grid_def)

definition bfs_measure :: "GameState \<Rightarrow> Coordinate set \<Rightarrow> Coordinate list \<Rightarrow> nat" where
  "bfs_measure g visited queue = 2 * card (grid g - visited) + length queue"

lemma enqueue_measure:
  "set ns \<subseteq> grid g \<Longrightarrow> enqueue_neighbors g ns (v, q) = Some (v', q') \<Longrightarrow>
     bfs_measure g v' q' \<le> bfs_measure g v q"
proof (induction ns arbitrary: v q)
  case Nil
  then show ?case by simp
next
  case (Cons n ns)
  have n: "n \<in> grid g" and ns: "set ns \<subseteq> grid g" using Cons.prems(1) by auto
  have step: "n \<notin> v \<Longrightarrow> bfs_measure g (insert n v) (q @ [n]) \<le> bfs_measure g v q"
  proof -
    assume nv: "n \<notin> v"
    have fin: "finite (grid g - v)" using finite_grid by simp
    have mem: "n \<in> grid g - v" using n nv by simp
    have "grid g - insert n v = (grid g - v) - {n}" by auto
    then have "card (grid g - insert n v) = card (grid g - v) - 1"
      using fin mem by simp
    moreover have "card (grid g - v) > 0" using fin mem by (auto simp: card_gt_0_iff)
    ultimately show ?thesis by (simp add: bfs_measure_def)
  qed
  from Cons.prems(2) show ?case
    using Cons.IH[OF ns] step
    by (auto split: if_splits option.splits intro: order_trans)
qed

function bfs_loop ::
  "GameState \<Rightarrow> Coordinate set \<Rightarrow> Coordinate list \<Rightarrow> Coordinate list \<Rightarrow> Coordinate list \<Rightarrow>
     (Coordinate list \<times> Coordinate list) option" where
  "bfs_loop state visited [] empty_cells boundary = Some (empty_cells, boundary)"
| "bfs_loop state visited (current # queue) empty_cells boundary =
     (case AdjacentMines state (X current) (Y current) of
        None \<Rightarrow> None
      | Some adjacentMines \<Rightarrow>
          if adjacentMines = 0
          then (case enqueue_neighbors state (GetNeighbors state (X current) (Y current))
                       (visited, queue) of
                  None \<Rightarrow> None
                | Some (visited', queue') \<Rightarrow>
                    bfs_loop state visited' queue' (empty_cells @ [current]) boundary)
          else bfs_loop state visited queue empty_cells (boundary @ [current]))"
  by pat_completeness auto
termination
proof (relation "measure (\<lambda>(g, visited, queue, empty_cells, boundary). bfs_measure g visited queue)")
  show "wf (measure (\<lambda>(g, visited, queue, empty_cells, boundary). bfs_measure g visited queue))" by simp
next
  fix state visited current queue empty_cells boundary x2 x2a x y
  assume "enqueue_neighbors state (GetNeighbors state (X current) (Y current)) (visited, queue) = Some x2a"
    and "(x, y) = x2a"
  then have "bfs_measure state x y \<le> bfs_measure state visited queue"
    using enqueue_measure[OF GetNeighbors_grid] by metis
  then show "((state, x, y, empty_cells @ [current], boundary), state, visited, current # queue, empty_cells, boundary)
       \<in> measure (\<lambda>(g, visited, queue, empty_cells, boundary). bfs_measure g visited queue)"
    by (simp add: bfs_measure_def)
next
  fix state visited current queue empty_cells boundary x2
  show "((state, visited, queue, empty_cells, boundary @ [current]), state, visited, current # queue, empty_cells, boundary)
       \<in> measure (\<lambda>(g, visited, queue, empty_cells, boundary). bfs_measure g visited queue)"
    by (simp add: bfs_measure_def)
qed

definition bfsPropagation :: "GameState \<Rightarrow> Coordinate \<Rightarrow> (Coordinate list \<times> Coordinate list) option" where
  "bfsPropagation state start = bfs_loop state {start} [start] [] []"


subsection \<open>No panic on a well-formed state\<close>

lemma wf_index_MineMap:
  "wf_state g \<Longrightarrow> IsValidCoordinate g x y \<Longrightarrow>
     index2 (MineMap g) x y = Some (MineMap g ! nat x ! nat y)"
  by (auto simp: wf_state_def IsValidCoordinate_def index2_def list_all_length)

lemma wf_index_Revealed:
  "wf_state g \<Longrightarrow> IsValidCoordinate g x y \<Longrightarrow>
     index2 (Revealed g) x y = Some (Revealed g ! nat x ! nat y)"
  by (auto simp: wf_state_def IsValidCoordinate_def index2_def list_all_length)

lemma IsMine_wf: "wf_state g \<Longrightarrow> \<exists>b. IsMine g x y = Some b"
  by (cases "IsValidCoordinate g x y") (auto simp: IsMine_def wf_index_MineMap)

lemma IsRevealed_wf: "wf_state g \<Longrightarrow> \<exists>b. IsRevealed g x y = Some b"
  by (cases "IsValidCoordinate g x y") (auto simp: IsRevealed_def wf_index_Revealed)

lemma count_mines_bounds:
  "count_mines g x y ds c = Some n \<Longrightarrow> c \<le> n \<and> n \<le> c + int (length ds)"
proof (induction ds arbitrary: c)
  case Nil
  then show ?case by simp
next
  case (Cons d ds)
  then show ?case by (fastforce split: option.splits if_splits)
qed

lemma count_mines_wf: "wf_state g \<Longrightarrow> \<exists>n. count_mines g x y ds c = Some n"
proof (induction ds arbitrary: c)
  case Nil
  then show ?case by simp
next
  case (Cons d ds)
  obtain b where "IsMine g (x + fst d) (y + snd d) = Some b"
    using IsMine_wf[OF Cons.prems] by blast
  then show ?case using Cons.IH[OF Cons.prems] by simp
qed

lemma length_neighbor_offsets: "length neighbor_offsets = 8"
  by (simp add: neighbor_offsets_def)

lemma AdjacentMines_bounds: "AdjacentMines g x y = Some n \<Longrightarrow> 0 \<le> n \<and> n \<le> 8"
  using count_mines_bounds[of g x y neighbor_offsets 0 n]
  by (simp add: AdjacentMines_def length_neighbor_offsets)

lemma AdjacentMines_wf: "wf_state g \<Longrightarrow> \<exists>n. AdjacentMines g x y = Some n"
  by (simp add: AdjacentMines_def count_mines_wf)

subsection \<open>The inner loop of the flood-fill\<close>

definition enqueueable :: "GameState \<Rightarrow> Coordinate \<Rightarrow> bool" where
  "enqueueable g c \<longleftrightarrow>
     IsValidCoordinate g (X c) (Y c) \<and> IsMine g (X c) (Y c) = Some False \<and>
     IsRevealed g (X c) (Y c) = Some False"

lemma enqueue_neighbors_wf:
  "wf_state g \<Longrightarrow> \<exists>r. enqueue_neighbors g ns (v, q) = Some r"
proof (induction ns arbitrary: v q)
  case Nil
  then show ?case by simp
next
  case (Cons n ns)
  obtain r where r: "IsRevealed g (X n) (Y n) = Some r"
    using IsRevealed_wf[OF Cons.prems] by blast
  obtain m where m: "IsMine g (X n) (Y n) = Some m"
    using IsMine_wf[OF Cons.prems] by blast
  show ?case using Cons.IH[OF Cons.prems] r m by simp
qed

lemma enqueue_neighbors_new:
  "enqueue_neighbors g ns (v, q) = Some (v', q') \<Longrightarrow>
     \<exists>new. q' = q @ new \<and> v' = v \<union> set new \<and> distinct new \<and> set new \<inter> v = {} \<and>
           set new \<subseteq> set ns \<and>
           (\<forall>c\<in>set new. IsMine g (X c) (Y c) = Some False \<and> IsRevealed g (X c) (Y c) = Some False)"
proof (induction ns arbitrary: v q)
  case Nil
  then show ?case by simp
next
  case (Cons n ns)
  show ?case
  proof (cases "n \<notin> v \<and> IsRevealed g (X n) (Y n) = Some False \<and> IsMine g (X n) (Y n) = Some False")
    case True
    then have "enqueue_neighbors g ns (insert n v, q @ [n]) = Some (v', q')"
      using Cons.prems by simp
    from Cons.IH[OF this] obtain new where new:
      "q' = (q @ [n]) @ new" "v' = insert n v \<union> set new" "distinct new"
      "set new \<inter> insert n v = {}" "set new \<subseteq> set ns"
      "\<forall>c\<in>set new. IsMine g (X c) (Y c) = Some False \<and> IsRevealed g (X c) (Y c) = Some False"
      by blast
    show ?thesis
    proof (intro exI[of _ "n # new"] conjI)
      show "q' = q @ n # new" using new(1) by simp
      show "v' = v \<union> set (n # new)" using new(2) by auto
      show "distinct (n # new)" using new(3,4) by auto
      show "set (n # new) \<inter> v = {}" using new(4) True by auto
      show "set (n # new) \<subseteq> set (n # ns)" using new(5) by auto
      show "\<forall>c\<in>set (n # new). IsMine g (X c) (Y c) = Some False \<and> IsRevealed g (X c) (Y c) = Some False"
        using new(6) True by auto
    qed
  next
    case False
    then have "enqueue_neighbors g ns (v, q) = Some (v', q')"
      using Cons.prems by (auto split: if_splits option.splits)
    from Cons.IH[OF this] obtain new where
      "q' = q @ new \<and> v' = v \<union> set new \<and> distinct new \<and> set new \<inter> v = {} \<and>
           set new \<subseteq> set ns \<and>
           (\<forall>c\<in>set new. IsMine g (X c) (Y c) = Some False \<and> IsRevealed g (X c) (Y c) = Some False)"
      by blast
    then show ?thesis by (intro exI[of _ new]) auto
  qed
qed


subsection \<open>The invariant of the outer loop\<close>

definition bfs_inv ::
  "GameState \<Rightarrow> Coordinate \<Rightarrow> Coordinate set \<Rightarrow> Coordinate list \<Rightarrow> Coordinate list \<Rightarrow>
     Coordinate list \<Rightarrow> bool" where
  "bfs_inv g start v q e b \<longleftrightarrow>
     distinct (e @ b @ q) \<and> set (e @ b @ q) \<subseteq> v \<and>
     (\<forall>c\<in>set e. AdjacentMines g (X c) (Y c) = Some 0) \<and>
     (\<forall>c\<in>set b. \<exists>n. AdjacentMines g (X c) (Y c) = Some n \<and> 0 < n) \<and>
     (\<forall>c\<in>set (e @ b @ q). c \<noteq> start \<longrightarrow> enqueueable g c)"

lemma bfs_inv_boundary_step:
  assumes "bfs_inv g start v (c # q) e b" "AdjacentMines g (X c) (Y c) = Some n" "n \<noteq> 0"
  shows "bfs_inv g start v q e (b @ [c])"
proof -
  have "0 < n" using AdjacentMines_bounds[OF assms(2)] assms(3) by simp
  then show ?thesis using assms(1,2) unfolding bfs_inv_def by auto
qed

lemma bfs_inv_empty_step:
  assumes inv: "bfs_inv g start v (c # q) e b"
    and adj: "AdjacentMines g (X c) (Y c) = Some 0"
    and enq: "enqueue_neighbors g (GetNeighbors g (X c) (Y c)) (v, q) = Some (v', q')"
  shows "bfs_inv g start v' q' (e @ [c]) b"
proof -
  from enqueue_neighbors_new[OF enq] obtain new where new:
    "q' = q @ new" "v' = v \<union> set new" "distinct new" "set new \<inter> v = {}"
    "set new \<subseteq> set (GetNeighbors g (X c) (Y c))"
    "\<forall>c\<in>set new. IsMine g (X c) (Y c) = Some False \<and> IsRevealed g (X c) (Y c) = Some False"
    by blast
  have valid: "\<forall>d\<in>set new. IsValidCoordinate g (X d) (Y d)"
    using new(5) GetNeighbors_grid[of g "X c" "Y c"] by (auto simp: grid_def)
  have enq_new: "\<forall>d\<in>set new. enqueueable g d"
    using valid new(6) by (simp add: enqueueable_def)
  have d: "distinct (e @ b @ c # q)" and sub: "set (e @ b @ c # q) \<subseteq> v"
    using inv by (simp_all add: bfs_inv_def)
  have disj: "set new \<inter> set (e @ b @ c # q) = {}" using new(4) sub by blast
  have 1: "distinct ((e @ [c]) @ b @ q')"
    using d disj new(1,3) by auto
  have 2: "set ((e @ [c]) @ b @ q') \<subseteq> v'" using sub new(1,2) by auto
  have 3: "\<forall>c\<in>set (e @ [c]). AdjacentMines g (X c) (Y c) = Some 0"
    using inv adj by (auto simp: bfs_inv_def)
  have 4: "\<forall>c\<in>set b. \<exists>n. AdjacentMines g (X c) (Y c) = Some n \<and> 0 < n"
    using inv by (simp add: bfs_inv_def)
  have 5: "\<forall>d\<in>set ((e @ [c]) @ b @ q'). d \<noteq> start \<longrightarrow> enqueueable g d"
    using inv enq_new new(1) by (auto simp: bfs_inv_def)
  show ?thesis unfolding bfs_inv_def using 1 2 3 4 5 by blast
qed

lemma bfs_loop_inv:
  "bfs_inv g start v q e b \<Longrightarrow> bfs_loop g v q e b = Some (e', b') \<Longrightarrow>
     (\<exists>v'. bfs_inv g start v' [] e' b') \<and> set (e @ b @ q) \<subseteq> set (e' @ b')"
proof (induction g v q e b rule: bfs_loop.induct)
  case (1 state visited empty_cells boundary)
  then show ?case by auto
next
  case (2 state visited current queue empty_cells boundary)
  from "2.prems"(2) obtain n where n: "AdjacentMines state (X current) (Y current) = Some n"
    by (auto split: option.splits)
  show ?case
  proof (cases "n = 0")
    case True
    with "2.prems"(2) n obtain v' q' where
      enq: "enqueue_neighbors state (GetNeighbors state (X current) (Y current)) (visited, queue)
              = Some (v', q')"
      and rec: "bfs_loop state v' q' (empty_cells @ [current]) boundary = Some (e', b')"
      by (auto split: option.splits)
    have inv': "bfs_inv state start v' q' (empty_cells @ [current]) boundary"
      using bfs_inv_empty_step[OF "2.prems"(1) _ enq] n True by simp
    have q': "set queue \<subseteq> set q'" using enqueue_neighbors_new[OF enq] by auto
    from "2.IH"(1)[OF n True enq refl inv' rec]
    show ?thesis using q' by auto
  next
    case False
    with "2.prems"(2) n have
      rec: "bfs_loop state visited queue empty_cells (boundary @ [current]) = Some (e', b')"
      by simp
    have inv': "bfs_inv state start visited queue empty_cells (boundary @ [current])"
      using bfs_inv_boundary_step[OF "2.prems"(1) n False] .
    from "2.IH"(2)[OF n False inv' rec]
    show ?thesis by auto
  qed
qed

lemma bfs_loop_wf: "wf_state g \<Longrightarrow> \<exists>r. bfs_loop g v q e b = Some r"
proof (induction g v q e b rule: bfs_loop.induct)
  case (1 state visited empty_cells boundary)
  then show ?case by simp
next
  case (2 state visited current queue empty_cells boundary)
  obtain n where n: "AdjacentMines state (X current) (Y current) = Some n"
    using AdjacentMines_wf[OF "2.prems"] by blast
  show ?case
  proof (cases "n = 0")
    case True
    obtain v' q' where
      enq: "enqueue_neighbors state (GetNeighbors state (X current) (Y current)) (visited, queue)
              = Some (v', q')"
      using enqueue_neighbors_wf[OF "2.prems"] by fastforce
    from "2.IH"(1)[OF n True enq refl "2.prems"] show ?thesis using n True enq by simp
  next
    case False
    from "2.IH"(2)[OF n False "2.prems"] show ?thesis using n False by simp
  qed
qed


text \<open>A 4 x 4 game with one mine at (3, 0).\<close>

definition scenario_B :: GameState where
  "scenario_B =
     \<lparr> Size = 4, Seed = 7, Level = 0, Status = StatusPlaying,
       MineMap = [[False, False, False, False], [False, False, False, False],
                  [False, False, False, False], [True, False, False, False]],
       Revealed = replicate 4 (replicate 4 False),
       HintCells = [], MineCount = 1, StartedAt = Some 0, EndedAt = None, Clicks = 0 \<rparr>"


text \<open>
  Claim C1. On every well-formed game state and from every start coordinate (in particular one
  with no adjacent mine), \<open>bfsPropagation\<close> returns: the loop is a total function (its
  termination is proved above from the finite grid and the growing visited set) and it never
  panics. The two lists it returns are duplicate-free and disjoint, so no coordinate is dequeued
  and classified twice; every entry of the first list has adjacency count zero and every entry
  of the second a count greater than zero; every entry but the start is in bounds, not a mine
  and not revealed. The inner loop appends to the queue exactly the neighbours it inserts into
  the visited set, at that moment, and these were not visited before.
\<close>

theorem bfsPropagation_sound:
  assumes "wf_state g"
  shows "\<exists>empty_cells boundary.
      bfsPropagation g start = Some (empty_cells, boundary) \<and>
      distinct (empty_cells @ boundary) \<and>
      start \<in> set (empty_cells @ boundary) \<and>
      (AdjacentMines g (X start) (Y start) = Some 0 \<longrightarrow> start \<in> set empty_cells) \<and>
      (\<forall>c\<in>set empty_cells. AdjacentMines g (X c) (Y c) = Some 0) \<and>
      (\<forall>c\<in>set boundary. \<exists>n. AdjacentMines g (X c) (Y c) = Some n \<and> 0 < n) \<and>
      (\<forall>c\<in>set (empty_cells @ boundary). c \<noteq> start \<longrightarrow>
          IsValidCoordinate g (X c) (Y c) \<and> IsMine g (X c) (Y c) = Some False \<and>
          IsRevealed g (X c) (Y c) = Some False) \<and>
      (\<forall>ns v q v' q'. enqueue_neighbors g ns (v, q) = Some (v', q') \<longrightarrow>
          (\<exists>new. q' = q @ new \<and> v' = v \<union> set new \<and> distinct new \<and> set new \<inter> v = {} \<and>
                 set new \<subseteq> set ns \<and>
                 (\<forall>c\<in>set new. IsMine g (X c) (Y c) = Some False \<and>
                                IsRevealed g (X c) (Y c) = Some False)))"
proof -
  obtain e b where res: "bfs_loop g {start} [start] [] [] = Some (e, b)"
    using bfs_loop_wf[OF assms, of "{start}" "[start]" "[]" "[]"] by fastforce
  have inv0: "bfs_inv g start {start} [start] [] []"
    by (simp add: bfs_inv_def)
  from bfs_loop_inv[OF inv0 res] obtain v' where
    inv: "bfs_inv g start v' [] e b" and mem: "start \<in> set (e @ b)"
    by auto
  have adj0: "AdjacentMines g (X start) (Y start) = Some 0 \<longrightarrow> start \<in> set e"
    using inv mem by (auto simp: bfs_inv_def)
  have enq: "\<forall>ns v q v' q'. enqueue_neighbors g ns (v, q) = Some (v', q') \<longrightarrow>
          (\<exists>new. q' = q @ new \<and> v' = v \<union> set new \<and> distinct new \<and> set new \<inter> v = {} \<and>
                 set new \<subseteq> set ns \<and>
                 (\<forall>c\<in>set new. IsMine g (X c) (Y c) = Some False \<and>
                                IsRevealed g (X c) (Y c) = Some False))"
    using enqueue_neighbors_new by blast
  have props: "distinct (e @ b)"
    "\<forall>c\<in>set e. AdjacentMines g (X c) (Y c) = Some 0"
    "\<forall>c\<in>set b. \<exists>n. AdjacentMines g (X c) (Y c) = Some n \<and> 0 < n"
    "\<forall>c\<in>set (e @ b). c \<noteq> start \<longrightarrow>
          IsValidCoordinate g (X c) (Y c) \<and> IsMine g (X c) (Y c) = Some False \<and>
          IsRevealed g (X c) (Y c) = Some False"
    using inv by (simp_all add: bfs_inv_def enqueueable_def)
  show ?thesis
    unfolding bfsPropagation_def using res mem adj0 props enq by blast
qed

theorem bfsPropagation_sound_witness:
  "wf_state scenario_B \<and>
   bfsPropagation scenario_B (Coordinate 0 0) =
     Some ([Coordinate 0 0, Coordinate 0 1, Coordinate 1 0, Coordinate 1 1, Coordinate 0 2,
            Coordinate 1 2, Coordinate 2 2, Coordinate 0 3, Coordinate 1 3, Coordinate 2 3,
            Coordinate 3 2, Coordinate 3 3],
           [Coordinate 2 0, Coordinate 2 1, Coordinate 3 1]) \<and>
   distinct ([Coordinate 0 0, Coordinate 0 1, Coordinate 1 0, Coordinate 1 1, Coordinate 0 2,
            Coordinate 1 2, Coordinate 2 2, Coordinate 0 3, Coordinate 1 3, Coordinate 2 3,
            Coordinate 3 2, Coordinate 3 3] @
           [Coordinate 2 0, Coordinate 2 1, Coordinate 3 1])"
proof -
  have h: "wf_state scenario_B"
    by code_simp
  have r: "bfsPropagation scenario_B (Coordinate 0 0) =
     Some ([Coordinate 0 0, Coordinate 0 1, Coordinate 1 0, Coordinate 1 1, Coordinate 0 2,
            Coordinate 1 2, Coordinate 2 2, Coordinate 0 3, Coordinate 1 3, Coordinate 2 3,
            Coordinate 3 2, Coordinate 3 3],
           [Coordinate 2 0, Coordinate 2 1, Coordinate 3 1])"
    by code_simp
  show ?thesis
    using h r bfsPropagation_sound[OF h, of "Coordinate 0 0"] by auto
qed

section \<open>The operations on the game state and the invariants\<close>

text \<open>The five mutating methods of \<open>GameState\<close>, as one type of operations.\<close>

datatype operation =
    OpSetMine int int
  | OpReveal int int
  | OpSetWon nat
  | OpSetLost nat
  | OpAddHintCell int int

fun apply_operation :: "GameState \<Rightarrow> operation \<Rightarrow> GameState option" where
  "apply_operation g (OpSetMine x y) = map_option snd (SetMine g x y)"
| "apply_operation g (OpReveal x y) = map_option snd (Reveal g x y)"
| "apply_operation g (OpSetWon now) = Some (SetWon g now)"
| "apply_operation g (OpSetLost now) = Some (SetLost g now)"
| "apply_operation g (OpAddHintCell x y) = Some (AddHintCell g x y)"

definition status_after :: "GameState \<Rightarrow> operation \<Rightarrow> GameStatus" where
  "status_after g op =
     (case op of OpSetWon now \<Rightarrow> StatusWon | OpSetLost now \<Rightarrow> StatusLost | _ \<Rightarrow> Status g)"

lemma store2_shape:
  "store2 m x y v = Some m' \<Longrightarrow> length m' = length m \<and> map length m' = map length m"
  by (auto simp: store2_def map_update list_eq_iff_nth_eq nth_list_update split: if_splits)

lemma store2_wf_rows:
  assumes "store2 m x y v = Some m'" "list_all (\<lambda>row. int (length row) = n) m"
  shows "list_all (\<lambda>row. int (length row) = n) m'"
proof -
  have "map length m' = map length m" using store2_shape[OF assms(1)] by simp
  moreover have "list_all (\<lambda>row. int (length row) = n) m \<longleftrightarrow> list_all (\<lambda>l. int l = n) (map length m)"
    by (simp add: list_all_iff)
  moreover have "list_all (\<lambda>row. int (length row) = n) m' \<longleftrightarrow> list_all (\<lambda>l. int l = n) (map length m')"
    by (simp add: list_all_iff)
  ultimately show ?thesis using assms(2) by simp
qed

lemma store2_True_mono:
  "store2 m x y True = Some m' \<Longrightarrow> index2 m a b = Some True \<Longrightarrow> index2 m' a b = Some True"
  by (auto simp: store2_def index2_def nth_list_update split: if_splits)

lemma store2_index_same:
  "store2 m x y v = Some m' \<Longrightarrow> index2 m' x y = Some v"
  by (auto simp: store2_def index2_def split: if_splits)

lemma store2_Some:
  "index2 m x y = Some b \<Longrightarrow> store2 m x y v = Some (m[nat x := (m ! nat x)[nat y := v]])"
  by (auto simp: store2_def index2_def split: if_splits)

lemma filter_update_True:
  "j < length row \<Longrightarrow> \<not> row ! j \<Longrightarrow>
     length (filter (\<lambda>b. b) (row[j := True])) = Suc (length (filter (\<lambda>b. b) row))"
proof (induction row arbitrary: j)
  case Nil
  then show ?case by simp
next
  case (Cons a row)
  then show ?case by (cases j) auto
qed

lemma count_true_update:
  assumes "i < length m" "j < length (m ! i)" "\<not> m ! i ! j"
  shows "count_true (m[i := (m ! i)[j := True]]) = Suc (count_true m)"
proof -
  let ?f = "\<lambda>row. length (filter (\<lambda>b. b) row)"
  have "map ?f (m[i := (m ! i)[j := True]]) = (map ?f m)[i := ?f ((m ! i)[j := True])]"
    by (simp add: map_update)
  also have "\<dots> = (map ?f m)[i := Suc (?f (m ! i))]"
    using filter_update_True[OF assms(2,3)] by simp
  finally have "count_true (m[i := (m ! i)[j := True]]) = sum_list ((map ?f m)[i := Suc (?f (m ! i))])"
    by (simp add: count_true_def)
  also have "\<dots> = sum_list (map ?f m) + Suc (?f (m ! i)) - (map ?f m) ! i"
    using assms(1) by (simp add: sum_list_update)
  also have "\<dots> = Suc (sum_list (map ?f m))" using assms(1) by simp
  finally show ?thesis by (simp add: count_true_def)
qed

lemma store2_count_true:
  "index2 m x y = Some False \<Longrightarrow> store2 m x y True = Some m' \<Longrightarrow>
     count_true m' = Suc (count_true m)"
  by (auto simp: store2_def index2_def count_true_update split: if_splits)

lemma Reveal_wf: "wf_state g \<Longrightarrow> \<exists>b g'. Reveal g x y = Some (b, g')"
  using wf_index_Revealed[of g x y]
  by (cases "IsValidCoordinate g x y") (auto simp: Reveal_def store2_Some)

lemma SetMine_wf: "wf_state g \<Longrightarrow> \<exists>b g'. SetMine g x y = Some (b, g')"
  using wf_index_MineMap[of g x y]
  by (cases "IsValidCoordinate g x y") (auto simp: SetMine_def store2_Some)

lemma Reveal_preserves:
  assumes "Reveal g x y = Some (b, g')"
  shows "Size g' = Size g" "MineMap g' = MineMap g" "MineCount g' = MineCount g"
    "Status g' = Status g" "HintCells g' = HintCells g" "EndedAt g' = EndedAt g"
    "wf_state g \<Longrightarrow> wf_state g'"
    "IsRevealed g a c = Some True \<Longrightarrow> IsRevealed g' a c = Some True"
  using assms
  by (auto simp: Reveal_def wf_state_def IsRevealed_def IsValidCoordinate_def
      dest: store2_shape store2_wf_rows store2_True_mono split: if_splits option.splits)

lemma SetMine_preserves:
  assumes "SetMine g x y = Some (b, g')"
  shows "Size g' = Size g" "Revealed g' = Revealed g" "Clicks g' = Clicks g"
    "Status g' = Status g" "HintCells g' = HintCells g" "EndedAt g' = EndedAt g"
    "wf_state g \<Longrightarrow> wf_state g'"
    "mine_count_ok g \<Longrightarrow> mine_count_ok g'"
  using assms
  by (auto simp: SetMine_def wf_state_def mine_count_ok_def
      dest: store2_shape store2_wf_rows store2_count_true split: if_splits option.splits)


lemma SetMine_twice: "SetMine g x y = Some (b, g') \<Longrightarrow> SetMine g' x y = Some (b, g')"
  by (auto simp: SetMine_def IsValidCoordinate_def dest: store2_index_same
      split: if_splits option.splits)

lemma Reveal_twice: "Reveal g x y = Some (b, g') \<Longrightarrow> Reveal g' x y = Some (False, g')"
  by (auto simp: Reveal_def IsValidCoordinate_def dest: store2_index_same
      split: if_splits option.splits)

text \<open>
  Claim C5 (as amended). From a state that satisfies the data-model invariants, each of SetMine,
  Reveal, SetWon, SetLost and AddHintCell returns without a panic a state in which both matrices
  still have \<open>Size\<close> rows of \<open>Size\<close> cells and \<open>MineCount\<close> is still the number of true entries
  of \<open>MineMap\<close>; a second SetMine on the same cell changes nothing; every revealed entry is
  still revealed. SetMine, Reveal and AddHintCell leave the status as it is; SetWon and SetLost
  set it to Won and Lost whatever it was before.
\<close>

theorem operations_preserve_invariants:
  assumes "wf_state g" "mine_count_ok g"
  shows "\<exists>g'. apply_operation g op = Some g' \<and> wf_state g' \<and> mine_count_ok g' \<and>
           Size g' = Size g \<and>
           (\<forall>x y. IsRevealed g x y = Some True \<longrightarrow> IsRevealed g' x y = Some True) \<and>
           Status g' = status_after g op \<and>
           (\<forall>x y. op = OpSetMine x y \<longrightarrow> apply_operation g' op = Some g')"
proof (cases op)
  case (OpSetMine x y)
  obtain b g' where r: "SetMine g x y = Some (b, g')" using SetMine_wf[OF assms(1)] by blast
  have "IsRevealed g' = IsRevealed g"
    using SetMine_preserves(1,2)[OF r] by (auto simp: IsRevealed_def IsValidCoordinate_def fun_eq_iff)
  then show ?thesis
    using OpSetMine r SetMine_preserves[OF r] SetMine_twice[OF r] assms
    by (simp add: status_after_def)
next
  case (OpReveal x y)
  obtain b g' where r: "Reveal g x y = Some (b, g')" using Reveal_wf[OF assms(1)] by blast
  have "mine_count_ok g'" using Reveal_preserves(2,3)[OF r] assms(2) by (simp add: mine_count_ok_def)
  then show ?thesis
    using OpReveal r Reveal_preserves[OF r] assms(1)
    by (simp add: status_after_def)
next
  case (OpSetWon now)
  then show ?thesis using assms
    by (simp add: SetWon_def wf_state_def mine_count_ok_def status_after_def IsRevealed_def
        IsValidCoordinate_def)
next
  case (OpSetLost now)
  then show ?thesis using assms
    by (simp add: SetLost_def wf_state_def mine_count_ok_def status_after_def IsRevealed_def
        IsValidCoordinate_def)
next
  case (OpAddHintCell x y)
  then show ?thesis using assms
    by (simp add: AddHintCell_def wf_state_def mine_count_ok_def status_after_def IsRevealed_def
        IsValidCoordinate_def)
qed

theorem operations_preserve_invariants_witness:
  "wf_state scenario_B \<and> mine_count_ok scenario_B \<and>
   (\<exists>g'. apply_operation scenario_B (OpSetMine 3 0) = Some g' \<and> wf_state g' \<and>
         mine_count_ok g' \<and> Status g' = StatusPlaying \<and>
         apply_operation g' (OpSetMine 3 0) = Some g')"
proof -
  have h1: "wf_state scenario_B" by code_simp
  have h2: "mine_count_ok scenario_B" by code_simp
  have s: "status_after scenario_B (OpSetMine 3 0) = StatusPlaying"
    by (simp add: status_after_def scenario_B_def)
  show ?thesis
    using h1 h2 s operations_preserve_invariants[OF h1 h2, of "OpSetMine 3 0"] by auto
qed

text \<open>
  The claim as the specification words it has the status move only from Playing to Won or to
  Lost and never back. SetWon on a lost game makes it a won one.
\<close>

theorem status_reversed_counterexample:
  "Status (SetLost scenario_B 1) = StatusLost \<and>
   map_option Status (apply_operation (SetLost scenario_B 1) (OpSetWon 2)) = Some StatusWon \<and>
   StatusLost \<noteq> StatusPlaying \<and> StatusWon \<noteq> StatusLost"
  by (simp add: SetLost_def SetWon_def StatusLost_def StatusWon_def StatusPlaying_def)

section \<open>Resource names (Coordinate.PodName, ParsePodName)\<close>

text \<open>
  \<open>fmt.Sprintf "%d"\<close> and \<open>strconv.Itoa\<close>: the decimal digits of the value, most significant
  first, with a leading minus sign for a negative one.
\<close>

definition digit_char :: "int \<Rightarrow> char" where
  "digit_char n = ''0123456789'' ! nat n"

function show_digits :: "int \<Rightarrow> string" where
  "show_digits n =
     (if n < 10 then [digit_char n] else show_digits (n div 10) @ [digit_char (n mod 10)])"
  by pat_completeness auto
termination
  by (relation "measure nat") auto

declare show_digits.simps [simp del]

definition Itoa :: "int \<Rightarrow> string" where
  "Itoa i = (if i < 0 then ''-'' @ show_digits (- i) else show_digits i)"

definition PodName :: "Coordinate \<Rightarrow> string" where
  "PodName c = ''pod-'' @ Itoa (X c) @ ''-'' @ Itoa (Y c)"

definition HintPodName :: "Coordinate \<Rightarrow> string" where
  "HintPodName c = ''hint-'' @ Itoa (X c) @ ''-'' @ Itoa (Y c)"

definition GeneratePodName :: "int \<Rightarrow> int \<Rightarrow> string" where
  "GeneratePodName x y = ''pod-'' @ Itoa x @ ''-'' @ Itoa y"

definition GenerateHintPodName :: "int \<Rightarrow> int \<Rightarrow> string" where
  "GenerateHintPodName x y = ''hint-'' @ Itoa x @ ''-'' @ Itoa y"

text \<open>
  The two regular expressions are \<open>^pod-(\d+)-(\d+)$\<close> and \<open>^hint-(\d+)-(\d+)$\<close>. In Go's
  \<open>regexp\<close> the class \<open>\d\<close> is the ASCII digits and \<open>$\<close> (without the \<open>m\<close> flag) is the end of
  the text. \<open>match_groups\<close> is \<open>FindStringSubmatch\<close> for \<open>^prefix(\d+)-(\d+)$\<close>: after the
  prefix the first group is the longest run of digits, a minus sign follows, and the rest of
  the text is the second group.
\<close>

definition is_digit :: "char \<Rightarrow> bool" where
  "is_digit c \<longleftrightarrow> c \<in> set ''0123456789''"

definition match_groups :: "string \<Rightarrow> string \<Rightarrow> (string \<times> string) option" where
  "match_groups prefix name =
     (if take (length prefix) name = prefix
      then (let rest = drop (length prefix) name;
                m1 = takeWhile is_digit rest
            in (case dropWhile is_digit rest of
                  [] \<Rightarrow> None
                | c # m2 \<Rightarrow>
                    if c = CHR ''-'' \<and> m1 \<noteq> [] \<and> m2 \<noteq> [] \<and> list_all is_digit m2
                    then Some (m1, m2) else None))
      else None)"

text \<open>
  \<open>strconv.Atoi\<close> on a non-empty string of digits: the decimal value, or an error when it
  does not fit a 64-bit \<open>int\<close>.
\<close>

definition digit_val :: "char \<Rightarrow> int" where
  "digit_val c = of_char c - 48"

definition decimal :: "string \<Rightarrow> int" where
  "decimal ds = foldl (\<lambda>n c. 10 * n + digit_val c) 0 ds"

definition Atoi :: "string \<Rightarrow> int option" where
  "Atoi ds = (if decimal ds \<le> 2 ^ 63 - 1 then Some (decimal ds) else None)"

definition parse_name :: "string \<Rightarrow> string \<Rightarrow> Coordinate option" where
  "parse_name prefix name =
     (case match_groups prefix name of
        None \<Rightarrow> None
      | Some (m1, m2) \<Rightarrow>
          (case Atoi m1 of
             None \<Rightarrow> None
           | Some x \<Rightarrow> (case Atoi m2 of None \<Rightarrow> None | Some y \<Rightarrow> Some (Coordinate x y))))"

definition ParsePodName :: "string \<Rightarrow> Coordinate option" where
  "ParsePodName name = parse_name ''pod-'' name"

definition ParseHintPodName :: "string \<Rightarrow> Coordinate option" where
  "ParseHintPodName name = parse_name ''hint-'' name"

definition IsPodName :: "string \<Rightarrow> bool" where
  "IsPodName name \<longleftrightarrow> match_groups ''pod-'' name \<noteq> None"

definition IsHintPodName :: "string \<Rightarrow> bool" where
  "IsHintPodName name \<longleftrightarrow> match_groups ''hint-'' name \<noteq> None"

subsection \<open>The matcher accepts the language of the regular expression\<close>

definition digits :: "string \<Rightarrow> bool" where
  "digits ds \<longleftrightarrow> ds \<noteq> [] \<and> list_all is_digit ds"

lemma not_digit_minus: "\<not> is_digit CHR ''-''"
  by (simp add: is_digit_def)

lemma match_groups_iff:
  "match_groups prefix name = Some (m1, m2) \<longleftrightarrow>
     name = prefix @ m1 @ ''-'' @ m2 \<and> digits m1 \<and> digits m2"
proof
  assume m: "match_groups prefix name = Some (m1, m2)"
  define rest where "rest = drop (length prefix) name"
  from m have p: "take (length prefix) name = prefix"
    by (auto simp: match_groups_def split: if_splits)
  from m p have parts: "m1 = takeWhile is_digit rest" "dropWhile is_digit rest = CHR ''-'' # m2"
    "m1 \<noteq> []" "m2 \<noteq> []" "list_all is_digit m2"
    by (auto simp: match_groups_def rest_def Let_def split: list.splits if_splits)
  have "name = take (length prefix) name @ rest" by (simp add: rest_def)
  also have "rest = takeWhile is_digit rest @ dropWhile is_digit rest" by simp
  finally have "name = prefix @ m1 @ ''-'' @ m2" using p parts(1,2) by simp
  moreover have "list_all is_digit m1"
    unfolding parts(1) by (simp add: list_all_iff) (meson set_takeWhileD)
  ultimately show "name = prefix @ m1 @ ''-'' @ m2 \<and> digits m1 \<and> digits m2"
    using parts(3,4,5) by (simp add: digits_def)
next
  assume a: "name = prefix @ m1 @ ''-'' @ m2 \<and> digits m1 \<and> digits m2"
  then have all1: "\<forall>c\<in>set m1. is_digit c" by (simp add: digits_def list_all_iff)
  have tw: "takeWhile is_digit (m1 @ CHR ''-'' # m2) = m1"
    using all1 not_digit_minus by (simp add: takeWhile_tail)
  have dw: "dropWhile is_digit (m1 @ CHR ''-'' # m2) = CHR ''-'' # m2"
    using all1 not_digit_minus by (simp add: dropWhile_append3)
  show "match_groups prefix name = Some (m1, m2)"
    using a tw dw by (simp add: match_groups_def digits_def)
qed

subsection \<open>Printing a number and reading it back\<close>

lemma digit_char_table:
  "\<forall>k\<in>set [0..9]. is_digit (digit_char k) \<and> digit_val (digit_char k) = k"
  by code_simp

lemma digit_char_props:
  "0 \<le> n \<Longrightarrow> n < 10 \<Longrightarrow> is_digit (digit_char n) \<and> digit_val (digit_char n) = n"
proof -
  assume "0 \<le> n" "n < 10"
  then have "n \<in> set [0..9]" by simp
  then show ?thesis using digit_char_table by blast
qed

lemma decimal_snoc: "decimal (ds @ [c]) = 10 * decimal ds + digit_val c"
  by (simp add: decimal_def)

lemma show_digits_props: "0 \<le> n \<Longrightarrow> digits (show_digits n) \<and> decimal (show_digits n) = n"
proof (induction n rule: show_digits.induct)
  case (1 n)
  show ?case
  proof (cases "n < 10")
    case True
    then show ?thesis
      using digit_char_props[of n] "1.prems"
      by (simp add: show_digits.simps[of n] digits_def decimal_def)
  next
    case False
    have m: "0 \<le> n mod 10" "n mod 10 < 10" by simp_all
    have "0 \<le> n div 10" using "1.prems" by simp
    with False "1.IH" have ih: "digits (show_digits (n div 10))"
      "decimal (show_digits (n div 10)) = n div 10"
      by simp_all
    show ?thesis
      using False ih digit_char_props[OF m]
      by (simp add: show_digits.simps[of n] digits_def decimal_snoc)
  qed
qed

lemma Atoi_Itoa: "0 \<le> i \<Longrightarrow> i < 2 ^ 63 \<Longrightarrow> digits (Itoa i) \<and> Atoi (Itoa i) = Some i"
  using show_digits_props[of i] by (simp add: Itoa_def Atoi_def)

lemma parse_name_print:
  assumes "0 \<le> x" "x < 2 ^ 63" "0 \<le> y" "y < 2 ^ 63"
  shows "parse_name prefix (prefix @ Itoa x @ ''-'' @ Itoa y) = Some (Coordinate x y)"
proof -
  have "match_groups prefix (prefix @ Itoa x @ ''-'' @ Itoa y) = Some (Itoa x, Itoa y)"
    using Atoi_Itoa[OF assms(1,2)] Atoi_Itoa[OF assms(3,4)] by (simp add: match_groups_iff)
  then show ?thesis
    using Atoi_Itoa[OF assms(1,2)] Atoi_Itoa[OF assms(3,4)] by (simp add: parse_name_def)
qed

lemma parse_name_iff:
  "parse_name prefix name = Some c \<longleftrightarrow>
     (\<exists>m1 m2. name = prefix @ m1 @ ''-'' @ m2 \<and> digits m1 \<and> digits m2 \<and>
         decimal m1 \<le> 2 ^ 63 - 1 \<and> decimal m2 \<le> 2 ^ 63 - 1 \<and>
         c = Coordinate (decimal m1) (decimal m2))"
proof
  assume "parse_name prefix name = Some c"
  then obtain m1 m2 where m: "match_groups prefix name = Some (m1, m2)"
    and a: "Atoi m1 = Some (X c)" "Atoi m2 = Some (Y c)"
    by (cases c) (auto simp: parse_name_def split: option.splits)
  from a have "decimal m1 \<le> 2 ^ 63 - 1 \<and> decimal m2 \<le> 2 ^ 63 - 1 \<and>
         c = Coordinate (decimal m1) (decimal m2)"
    by (cases c) (auto simp: Atoi_def split: if_splits)
  then show "\<exists>m1 m2. name = prefix @ m1 @ ''-'' @ m2 \<and> digits m1 \<and> digits m2 \<and>
         decimal m1 \<le> 2 ^ 63 - 1 \<and> decimal m2 \<le> 2 ^ 63 - 1 \<and>
         c = Coordinate (decimal m1) (decimal m2)"
    using m unfolding match_groups_iff by blast
next
  assume "\<exists>m1 m2. name = prefix @ m1 @ ''-'' @ m2 \<and> digits m1 \<and> digits m2 \<and>
         decimal m1 \<le> 2 ^ 63 - 1 \<and> decimal m2 \<le> 2 ^ 63 - 1 \<and>
         c = Coordinate (decimal m1) (decimal m2)"
  then obtain m1 m2 where a: "name = prefix @ m1 @ ''-'' @ m2 \<and> digits m1 \<and> digits m2"
    and b: "decimal m1 \<le> 2 ^ 63 - 1" "decimal m2 \<le> 2 ^ 63 - 1"
      "c = Coordinate (decimal m1) (decimal m2)"
    by blast
  have "match_groups prefix name = Some (m1, m2)" using a by (simp add: match_groups_iff)
  then show "parse_name prefix name = Some c" using b by (simp add: parse_name_def Atoi_def)
qed

section \<open>The cluster, the store and the handlers (package controller)\<close>

text \<open>
  The Kubernetes API client is a library outside the repository. It is modelled as the list of
  the pods of the game namespace, with the behaviour the handlers rely on: \<open>Create\<close> adds a pod
  unless one of that name exists (\<open>AlreadyExists\<close>), \<open>Delete\<close> removes the pod of that name
  (\<open>NotFound\<close> when there is none), \<open>List\<close> returns the pods and \<open>Get\<close> the pod of a name. Any
  call may fail for a reason of the environment; \<open>Faults\<close> says which ones do.
\<close>

datatype error =
    ErrClient
  | ErrAlreadyExists
  | ErrNotFound
  | ErrStore
  | ErrContext
  | ErrAttempts int "error option"
  | ErrSpawn int

record Pod =
  podName :: string
  podComponent :: string
  podHint :: "int option"
  podTerminating :: bool

record Faults =
  getFails :: "string \<Rightarrow> bool"
  listFails :: bool
  createFails :: "string \<Rightarrow> int \<Rightarrow> bool"
  deleteFails :: "string \<Rightarrow> bool"
  ctxDone :: "string \<Rightarrow> int \<Rightarrow> bool"

definition client_Create :: "Faults \<Rightarrow> int \<Rightarrow> Pod \<Rightarrow> Pod list \<Rightarrow> error option \<times> Pod list" where
  "client_Create f attempt pod pods =
     (if createFails f (podName pod) attempt then (Some ErrClient, pods)
      else if podName pod \<in> set (map podName pods) then (Some ErrAlreadyExists, pods)
      else (None, pods @ [pod]))"

definition client_Delete :: "Faults \<Rightarrow> string \<Rightarrow> Pod list \<Rightarrow> error option \<times> Pod list" where
  "client_Delete f name pods =
     (if deleteFails f name then (Some ErrClient, pods)
      else if name \<notin> set (map podName pods) then (Some ErrNotFound, pods)
      else (None, filter (\<lambda>p. podName p \<noteq> name) pods))"

definition client_List :: "Faults \<Rightarrow> Pod list \<Rightarrow> error + Pod list" where
  "client_List f pods = (if listFails f then Inl ErrClient else Inr pods)"

datatype get_result = GetNotFound | GetError | GetFound Pod

definition client_Get :: "Faults \<Rightarrow> string \<Rightarrow> Pod list \<Rightarrow> get_result" where
  "client_Get f name pods =
     (if getFails f name then GetError
      else (case find (\<lambda>p. podName p = name) pods of
              None \<Rightarrow> GetNotFound
            | Some pod \<Rightarrow> GetFound pod))"

text \<open>
  The \<open>Store\<close> interface: \<open>Load\<close> returns an error, the absent value (\<open>nil, nil\<close>) or a state;
  \<open>Save\<close> returns an error or nothing. An implementation is a pair of functions on its own
  state \<open>'s\<close>; the outer \<open>option\<close> is a panic inside the implementation.
\<close>

record 's Store =
  Load :: "'s \<Rightarrow> (error + GameState option) option"
  Save :: "'s \<Rightarrow> GameState \<Rightarrow> (error option \<times> 's) option"

record 's World =
  store :: 's
  pods :: "Pod list"

text \<open>\<open>MemoryStore\<close>: the state it holds, or \<open>nil\<close>.\<close>

type_synonym MemoryStore = "GameState option"

definition NewMemoryStore :: MemoryStore where
  "NewMemoryStore = None"

definition MemoryStore_Load :: "MemoryStore \<Rightarrow> (error + GameState option) option" where
  "MemoryStore_Load m =
     (case m of
        None \<Rightarrow> Some (Inr None)
      | Some state \<Rightarrow> map_option (\<lambda>c. Inr (Some c)) (Clone state))"

definition MemoryStore_Save :: "MemoryStore \<Rightarrow> GameState \<Rightarrow> (error option \<times> MemoryStore) option" where
  "MemoryStore_Save m state = map_option (\<lambda>c. (None, Some c)) (Clone state)"

definition memory_store :: "MemoryStore Store" where
  "memory_store = \<lparr> Load = MemoryStore_Load, Save = MemoryStore_Save \<rparr>"

text \<open>
  \<open>SecretStore.Load\<close>, as a function of what the client's \<open>Get\<close> of the secret returns. The
  secret's data is a map from keys to bytes; \<open>json.Unmarshal\<close> is a parameter.
\<close>

datatype 'a got = NotFound | Failed | Found 'a

definition StateKey :: string where
  "StateKey = ''state''"

definition FromJSON :: "(string \<Rightarrow> GameState option) \<Rightarrow> string \<Rightarrow> error + GameState" where
  "FromJSON unmarshal data = (case unmarshal data of None \<Rightarrow> Inl ErrStore | Some state \<Rightarrow> Inr state)"

definition SecretStore_Load ::
  "(string \<Rightarrow> GameState option) \<Rightarrow> (string \<rightharpoonup> string) got \<Rightarrow> error + GameState option" where
  "SecretStore_Load unmarshal secret =
     (case secret of
        NotFound \<Rightarrow> Inr None
      | Failed \<Rightarrow> Inl ErrStore
      | Found secretData \<Rightarrow>
          (case secretData StateKey of
             None \<Rightarrow> Inl ErrStore
           | Some data \<Rightarrow>
               (case FromJSON unmarshal data of
                  Inl err \<Rightarrow> Inl err
                | Inr state \<Rightarrow> Inr (Some state))))"

subsection \<open>Pods the handlers create and delete\<close>

definition spawnHintPod :: "Faults \<Rightarrow> Coordinate \<Rightarrow> int \<Rightarrow> Pod list \<Rightarrow> error option \<times> Pod list" where
  "spawnHintPod f coords hintValue ps =
     client_Create f 0
       \<lparr> podName = HintPodName coords, podComponent = ''hint'', podHint = Some hintValue,
         podTerminating = False \<rparr> ps"

definition spawnExplosionPod :: "Faults \<Rightarrow> Coordinate \<Rightarrow> Pod list \<Rightarrow> error option \<times> Pod list" where
  "spawnExplosionPod f coords ps =
     client_Create f 0
       \<lparr> podName = ''explosion'', podComponent = ''explosion'', podHint = None,
         podTerminating = False \<rparr> ps"

definition spawnVictoryPod :: "Faults \<Rightarrow> GameState \<Rightarrow> Pod list \<Rightarrow> error option \<times> Pod list" where
  "spawnVictoryPod f state ps =
     client_Create f 0
       \<lparr> podName = ''victory'', podComponent = ''victory'', podHint = None,
         podTerminating = False \<rparr> ps"

definition IgnoreNotFound :: "error option \<Rightarrow> error option" where
  "IgnoreNotFound err = (if err = Some ErrNotFound then None else err)"

definition deletePod :: "Faults \<Rightarrow> Coordinate \<Rightarrow> Pod list \<Rightarrow> error option \<times> Pod list" where
  "deletePod f coords ps =
     (case client_Delete f (PodName coords) ps of (err, ps') \<Rightarrow> (IgnoreNotFound err, ps'))"

text \<open>
  \<open>wipeGamePods\<close>: the loop runs over the pods that \<open>List\<close> returned; a failed deletion is
  logged and the loop goes on.
\<close>

fun wipe_loop :: "Faults \<Rightarrow> Pod list \<Rightarrow> Pod list \<Rightarrow> Pod list" where
  "wipe_loop f [] ps = ps"
| "wipe_loop f (pod # items) ps =
     (if IsPodName (podName pod) \<or> IsHintPodName (podName pod)
      then wipe_loop f items (snd (client_Delete f (podName pod) ps))
      else wipe_loop f items ps)"

definition wipeGamePods :: "Faults \<Rightarrow> Pod list \<Rightarrow> error option \<times> Pod list" where
  "wipeGamePods f ps =
     (case client_List f ps of
        Inl err \<Rightarrow> (Some err, ps)
      | Inr items \<Rightarrow> (None, wipe_loop f items ps))"

subsection \<open>The handlers\<close>

text \<open>
  A handler returns the error it hands back to the controller runtime (\<open>None\<close> is \<open>nil\<close>) and
  the store and the pods after the call. \<open>now\<close> is the value of \<open>time.Now()\<close>.
\<close>

definition save_then ::
  "'s Store \<Rightarrow> 's World \<Rightarrow> GameState \<Rightarrow> ('s \<Rightarrow> (error option \<times> 's World) option) \<Rightarrow>
     (error option \<times> 's World) option" where
  "save_then st w state k =
     (case Save st (store w) state of
        None \<Rightarrow> None
      | Some (Some err, s') \<Rightarrow> Some (Some err, w\<lparr>store := s'\<rparr>)
      | Some (None, s') \<Rightarrow> k s')"

definition HandleMineHit ::
  "'s Store \<Rightarrow> Faults \<Rightarrow> nat \<Rightarrow> 's World \<Rightarrow> GameState \<Rightarrow> Coordinate \<Rightarrow>
     (error option \<times> 's World) option" where
  "HandleMineHit st f now w state coords =
     (case Reveal state (X coords) (Y coords) of
        None \<Rightarrow> None
      | Some (_, state1) \<Rightarrow>
          save_then st w (SetLost state1 now) (\<lambda>s'.
            (case wipeGamePods f (pods w) of
               (Some err, ps) \<Rightarrow> Some (Some err, \<lparr>store = s', pods = ps\<rparr>)
             | (None, ps) \<Rightarrow>
                 (case spawnExplosionPod f coords ps of
                    (err, ps') \<Rightarrow> Some (err, \<lparr>store = s', pods = ps'\<rparr>)))))"

definition handleVictory ::
  "'s Store \<Rightarrow> Faults \<Rightarrow> nat \<Rightarrow> 's World \<Rightarrow> GameState \<Rightarrow> (error option \<times> 's World) option" where
  "handleVictory st f now w state =
     save_then st w (SetWon state now) (\<lambda>s'.
       (case spawnVictoryPod f (SetWon state now) (pods w) of
          (err, ps') \<Rightarrow> Some (err, \<lparr>store = s', pods = ps'\<rparr>)))"

definition check_victory_and_save ::
  "'s Store \<Rightarrow> Faults \<Rightarrow> nat \<Rightarrow> 's World \<Rightarrow> GameState \<Rightarrow> (error option \<times> 's World) option" where
  "check_victory_and_save st f now w state =
     (case CheckVictory state of
        None \<Rightarrow> None
      | Some won \<Rightarrow>
          if won then handleVictory st f now w state
          else save_then st w state (\<lambda>s'. Some (None, w\<lparr>store := s'\<rparr>)))"

definition HandleHintCell ::
  "'s Store \<Rightarrow> Faults \<Rightarrow> nat \<Rightarrow> 's World \<Rightarrow> GameState \<Rightarrow> Coordinate \<Rightarrow> int \<Rightarrow>
     (error option \<times> 's World) option" where
  "HandleHintCell st f now w state coords hintValue =
     (case Reveal state (X coords) (Y coords) of
        None \<Rightarrow> None
      | Some (_, state1) \<Rightarrow>
          (let state2 = AddHintCell state1 (X coords) (Y coords) in
           (case spawnHintPod f coords hintValue (pods w) of
              (Some err, ps) \<Rightarrow> Some (Some err, w\<lparr>pods := ps\<rparr>)
            | (None, ps) \<Rightarrow> check_victory_and_save st f now (w\<lparr>pods := ps\<rparr>) state2)))"

fun reveal_all :: "GameState \<Rightarrow> Coordinate list \<Rightarrow> GameState option" where
  "reveal_all state [] = Some state"
| "reveal_all state (c # cs) =
     (case Reveal state (X c) (Y c) of
        None \<Rightarrow> None
      | Some (_, state') \<Rightarrow> reveal_all state' cs)"

fun delete_all :: "Faults \<Rightarrow> Coordinate list \<Rightarrow> Pod list \<Rightarrow> Pod list" where
  "delete_all f [] ps = ps"
| "delete_all f (c # cs) ps = delete_all f cs (snd (deletePod f c ps))"

fun hint_boundary ::
  "Faults \<Rightarrow> Coordinate list \<Rightarrow> GameState \<times> Pod list \<Rightarrow> (GameState \<times> Pod list) option" where
  "hint_boundary f [] (state, ps) = Some (state, ps)"
| "hint_boundary f (c # cs) (state, ps) =
     (case AdjacentMines state (X c) (Y c) of
        None \<Rightarrow> None
      | Some hintValue \<Rightarrow>
          (case Reveal state (X c) (Y c) of
             None \<Rightarrow> None
           | Some (_, state1) \<Rightarrow>
               hint_boundary f cs
                 (AddHintCell state1 (X c) (Y c),
                  snd (spawnHintPod f c hintValue (snd (deletePod f c ps))))))"

definition HandleEmptyCell ::
  "'s Store \<Rightarrow> Faults \<Rightarrow> nat \<Rightarrow> 's World \<Rightarrow> GameState \<Rightarrow> Coordinate \<Rightarrow>
     (error option \<times> 's World) option" where
  "HandleEmptyCell st f now w state coords =
     (case bfsPropagation state coords of
        None \<Rightarrow> None
      | Some (toReveal, boundaryHints) \<Rightarrow>
          (case reveal_all state toReveal of
             None \<Rightarrow> None
           | Some state1 \<Rightarrow>
               (case hint_boundary f boundaryHints (state1, delete_all f toReveal (pods w)) of
                  None \<Rightarrow> None
                | Some (state2, ps) \<Rightarrow> check_victory_and_save st f now (w\<lparr>pods := ps\<rparr>) state2)))"

subsection \<open>The reconciler\<close>

definition handlePodDeletion ::
  "'s Store \<Rightarrow> Faults \<Rightarrow> nat \<Rightarrow> 's World \<Rightarrow> Coordinate \<Rightarrow> (error option \<times> 's World) option" where
  "handlePodDeletion st f now w coords =
     (case Load st (store w) of
        None \<Rightarrow> None
      | Some (Inl err) \<Rightarrow> Some (Some err, w)
      | Some (Inr None) \<Rightarrow> Some (None, w)
      | Some (Inr (Some state)) \<Rightarrow>
          if Status state \<noteq> StatusPlaying then Some (None, w)
          else (case IsRevealed state (X coords) (Y coords) of
                  None \<Rightarrow> None
                | Some revealed \<Rightarrow>
                    if revealed then Some (None, w)
                    else (case IsMine state (X coords) (Y coords) of
                            None \<Rightarrow> None
                          | Some mine \<Rightarrow>
                              if mine then HandleMineHit st f now w state coords
                              else (case AdjacentMines state (X coords) (Y coords) of
                                      None \<Rightarrow> None
                                    | Some adjacentMines \<Rightarrow>
                                        if adjacentMines > 0
                                        then HandleHintCell st f now w state coords adjacentMines
                                        else HandleEmptyCell st f now w state coords))))"

text \<open>
  \<open>Reconcile\<close>: \<open>ns\<close> is the controller's namespace, the request is a namespace and a name.
  The world holds the pods of the controller's namespace, the only ones it reads.
\<close>

definition Reconcile ::
  "'s Store \<Rightarrow> Faults \<Rightarrow> nat \<Rightarrow> string \<Rightarrow> string \<times> string \<Rightarrow> 's World \<Rightarrow>
     (error option \<times> 's World) option" where
  "Reconcile st f now ns req w =
     (if fst req \<noteq> ns then Some (None, w)
      else (case ParsePodName (snd req) of
              None \<Rightarrow> Some (None, w)
            | Some coords \<Rightarrow>
                (case client_Get f (snd req) (pods w) of
                   GetNotFound \<Rightarrow> handlePodDeletion st f now w coords
                 | GetError \<Rightarrow> Some (Some ErrClient, w)
                 | GetFound pod \<Rightarrow> Some (None, w))))"

section \<open>Properties of the reconciler\<close>

lemma copy_row_id: "length row = n \<Longrightarrow> copy_row n row = row"
  by (simp add: copy_row_def)

lemma clone_matrix_wf:
  assumes "int (length m) = n" "list_all (\<lambda>row. int (length row) = n) m"
  shows "clone_matrix n m = Some m"
proof -
  have n: "0 \<le> n" "nat n = length m" using assms(1) by auto
  have "\<forall>row\<in>set m. copy_row (nat n) row = row"
    using assms(2) n by (auto simp: list_all_iff intro!: copy_row_id)
  then have "map (copy_row (nat n)) m = m" by (simp add: map_idI)
  then show ?thesis using n assms(1) by (simp add: clone_matrix_def)
qed

lemma Clone_wf: "wf_state g \<Longrightarrow> Clone g = Some g"
  by (simp add: Clone_def wf_state_def clone_matrix_wf)

definition no_faults :: Faults where
  "no_faults = \<lparr> getFails = (\<lambda>name. False), listFails = False,
                  createFails = (\<lambda>name attempt. False), deleteFails = (\<lambda>name. False),
                  ctxDone = (\<lambda>name attempt. False) \<rparr>"

definition cell_pod :: "Coordinate \<Rightarrow> Pod" where
  "cell_pod c = \<lparr> podName = PodName c, podComponent = ''cell'', podHint = None,
                  podTerminating = False \<rparr>"

text \<open>
  Claim C7. When \<open>Load\<close> returns the absent value, or a state whose status is not Playing,
  \<open>handlePodDeletion\<close> returns no error and leaves the store and the pods as they were: it
  returns before any handler. \<open>Load\<close> of a new \<open>MemoryStore\<close>, and \<open>Load\<close> of a \<open>SecretStore\<close>
  whose secret is not found, return the absent value and no error.
\<close>

theorem deletion_ignored_without_playing_game:
  "(Load st (store w) = Some (Inr None) \<longrightarrow>
      handlePodDeletion st f now w coords = Some (None, w)) \<and>
   (\<forall>state. Load st (store w) = Some (Inr (Some state)) \<and> Status state \<noteq> StatusPlaying \<longrightarrow>
      handlePodDeletion st f now w coords = Some (None, w)) \<and>
   MemoryStore_Load NewMemoryStore = Some (Inr None) \<and>
   SecretStore_Load unmarshal NotFound = Inr None"
  by (simp add: handlePodDeletion_def MemoryStore_Load_def NewMemoryStore_def SecretStore_Load_def)

definition lost_B :: GameState where
  "lost_B = SetLost scenario_B 3"

theorem deletion_ignored_without_playing_game_witness:
  "Load memory_store (store \<lparr>store = NewMemoryStore, pods = [cell_pod (Coordinate 0 0)]\<rparr>)
     = Some (Inr None) \<and>
   handlePodDeletion memory_store no_faults 5
       \<lparr>store = NewMemoryStore, pods = [cell_pod (Coordinate 0 0)]\<rparr> (Coordinate 1 1)
     = Some (None, \<lparr>store = NewMemoryStore, pods = [cell_pod (Coordinate 0 0)]\<rparr>) \<and>
   Load memory_store (store \<lparr>store = Some lost_B, pods = []\<rparr>) = Some (Inr (Some lost_B)) \<and>
   Status lost_B \<noteq> StatusPlaying \<and>
   handlePodDeletion memory_store no_faults 5 \<lparr>store = Some lost_B, pods = []\<rparr> (Coordinate 1 1)
     = Some (None, \<lparr>store = Some lost_B, pods = []\<rparr>)"
proof -
  have h1: "Load memory_store (store \<lparr>store = NewMemoryStore, pods = [cell_pod (Coordinate 0 0)]\<rparr>)
     = Some (Inr None)"
    by (simp add: memory_store_def MemoryStore_Load_def NewMemoryStore_def)
  have wf: "wf_state lost_B" by code_simp
  have h2: "Load memory_store (store \<lparr>store = Some lost_B, pods = []\<rparr>) = Some (Inr (Some lost_B))"
    by (simp add: memory_store_def MemoryStore_Load_def Clone_wf[OF wf])
  have h3: "Status lost_B \<noteq> StatusPlaying"
    by (simp add: lost_B_def SetLost_def StatusLost_def StatusPlaying_def)
  show ?thesis
    using h1 h2 h3
      deletion_ignored_without_playing_game[of memory_store
        "\<lparr>store = NewMemoryStore, pods = [cell_pod (Coordinate 0 0)]\<rparr>" no_faults 5 "Coordinate 1 1"]
      deletion_ignored_without_playing_game[of memory_store
        "\<lparr>store = Some lost_B, pods = []\<rparr>" no_faults 5 "Coordinate 1 1"]
    by blast
qed

text \<open>
  Claim C6. On a well-formed state and an in-bounds coordinate, \<open>Reveal\<close> returns; called again on
  the state it leaves, it returns false and changes nothing (neither the matrix nor \<open>Clicks\<close>).
  On a coordinate not yet revealed the first call returns true, marks it and adds exactly one
  to \<open>Clicks\<close>; on a revealed one it returns false and changes nothing. The reconciler ignores a
  deletion whose coordinate the loaded state has revealed: no error, store and pods unchanged.
\<close>

theorem Reveal_idempotent:
  assumes "wf_state g" "IsValidCoordinate g x y"
  shows "\<exists>b g'. Reveal g x y = Some (b, g') \<and> Reveal g' x y = Some (False, g') \<and>
           IsRevealed g' x y = Some True \<and>
           (IsRevealed g x y = Some False \<longrightarrow> b \<and> Clicks g' = Clicks g + 1) \<and>
           (IsRevealed g x y = Some True \<longrightarrow> \<not> b \<and> g' = g) \<and>
           (\<forall>state. Load st (store w) = Some (Inr (Some state)) \<and>
                     IsRevealed state x y = Some True \<longrightarrow>
                handlePodDeletion st f now w (Coordinate x y) = Some (None, w))"
proof -
  obtain b g' where r: "Reveal g x y = Some (b, g')" using Reveal_wf[OF assms(1)] by blast
  have i: "index2 (Revealed g) x y = Some (Revealed g ! nat x ! nat y)"
    using wf_index_Revealed[OF assms] .
  have 1: "IsRevealed g' x y = Some True"
    using r assms(2) i
    by (auto simp: Reveal_def IsRevealed_def IsValidCoordinate_def dest: store2_index_same
        split: if_splits option.splits)
  have 2: "IsRevealed g x y = Some False \<longrightarrow> b \<and> Clicks g' = Clicks g + 1"
    using r assms(2) by (auto simp: Reveal_def IsRevealed_def split: if_splits option.splits)
  have 3: "IsRevealed g x y = Some True \<longrightarrow> \<not> b \<and> g' = g"
    using r assms(2) by (auto simp: Reveal_def IsRevealed_def split: if_splits option.splits)
  have 4: "\<forall>state. Load st (store w) = Some (Inr (Some state)) \<and>
                     IsRevealed state x y = Some True \<longrightarrow>
                handlePodDeletion st f now w (Coordinate x y) = Some (None, w)"
    by (simp add: handlePodDeletion_def)
  show ?thesis using r Reveal_twice[OF r] 1 2 3 4 by blast
qed


definition revealed_B :: GameState where
  "revealed_B =
     scenario_B\<lparr>Revealed := [[True, False, False, False], [False, False, False, False],
                              [False, False, False, False], [False, False, False, False]],
                 Clicks := 1\<rparr>"

theorem Reveal_idempotent_witness:
  "wf_state scenario_B \<and> IsValidCoordinate scenario_B 0 0 \<and>
   Reveal scenario_B 0 0 = Some (True, revealed_B) \<and>
   Reveal revealed_B 0 0 = Some (False, revealed_B) \<and>
   Clicks revealed_B = Clicks scenario_B + 1 \<and>
   handlePodDeletion memory_store no_faults 5 \<lparr>store = Some revealed_B, pods = []\<rparr> (Coordinate 0 0)
     = Some (None, \<lparr>store = Some revealed_B, pods = []\<rparr>)"
proof -
  have h1: "wf_state scenario_B" by code_simp
  have h2: "IsValidCoordinate scenario_B 0 0" by code_simp
  have r: "Reveal scenario_B 0 0 = Some (True, revealed_B)" by code_simp
  have wf: "wf_state revealed_B" by code_simp
  have l: "Load memory_store (store \<lparr>store = Some revealed_B, pods = []\<rparr>)
             = Some (Inr (Some revealed_B))"
    by (simp add: memory_store_def MemoryStore_Load_def Clone_wf[OF wf])
  have i: "IsRevealed revealed_B 0 0 = Some True" by code_simp
  have c: "Clicks revealed_B = Clicks scenario_B + 1" by code_simp
  show ?thesis
    using h1 h2 r l i c
      Reveal_idempotent[OF h1 h2, of memory_store "\<lparr>store = Some revealed_B, pods = []\<rparr>"
        no_faults 5]
    by auto
qed

subsection \<open>The mine-hit handler\<close>

definition is_game_pod :: "Pod \<Rightarrow> bool" where
  "is_game_pod p \<longleftrightarrow> IsPodName (podName p) \<or> IsHintPodName (podName p)"

definition explosion_pod :: Pod where
  "explosion_pod = \<lparr> podName = ''explosion'', podComponent = ''explosion'', podHint = None,
                      podTerminating = False \<rparr>"

lemma client_Delete_pods:
  "snd (client_Delete f name ps) =
     (if deleteFails f name then ps else filter (\<lambda>p. podName p \<noteq> name) ps)"
proof -
  have "name \<notin> set (map podName ps) \<Longrightarrow> filter (\<lambda>p. podName p \<noteq> name) ps = ps"
    by (induction ps) auto
  then show ?thesis by (auto simp: client_Delete_def)
qed

lemma wipe_loop_filter:
  "wipe_loop f items ps =
     filter (\<lambda>p. \<not> (\<exists>q\<in>set items. is_game_pod q \<and> \<not> deleteFails f (podName q) \<and>
                                 podName q = podName p)) ps"
proof (induction items arbitrary: ps)
  case Nil
  then show ?case by simp
next
  case (Cons pod items)
  show ?case
  proof (cases "is_game_pod pod \<and> \<not> deleteFails f (podName pod)")
    case True
    then have "wipe_loop f (pod # items) ps =
        wipe_loop f items (filter (\<lambda>p. podName p \<noteq> podName pod) ps)"
      by (simp add: is_game_pod_def client_Delete_pods)
    also have "\<dots> = filter (\<lambda>p. \<not> (\<exists>q\<in>set items. is_game_pod q \<and> \<not> deleteFails f (podName q) \<and>
                                 podName q = podName p)) (filter (\<lambda>p. podName p \<noteq> podName pod) ps)"
      by (rule Cons.IH)
    also have "\<dots> = filter (\<lambda>p. \<not> (\<exists>q\<in>set (pod # items). is_game_pod q \<and>
                      \<not> deleteFails f (podName q) \<and> podName q = podName p)) ps"
      using True by (auto intro!: filter_cong)
    finally show ?thesis .
  next
    case False
    then have "wipe_loop f (pod # items) ps = wipe_loop f items ps"
      by (auto simp: is_game_pod_def client_Delete_pods)
    also have "\<dots> = filter (\<lambda>p. \<not> (\<exists>q\<in>set items. is_game_pod q \<and> \<not> deleteFails f (podName q) \<and>
                                 podName q = podName p)) ps"
      by (rule Cons.IH)
    also have "\<dots> = filter (\<lambda>p. \<not> (\<exists>q\<in>set (pod # items). is_game_pod q \<and>
                      \<not> deleteFails f (podName q) \<and> podName q = podName p)) ps"
      using False by (auto intro!: filter_cong)
    finally show ?thesis .
  qed
qed

lemma wipe_loop_self:
  "wipe_loop f ps ps = filter (\<lambda>p. \<not> is_game_pod p \<or> deleteFails f (podName p)) ps"
proof -
  have "filter (\<lambda>p. \<not> (\<exists>q\<in>set ps. is_game_pod q \<and> \<not> deleteFails f (podName q) \<and>
                                 podName q = podName p)) ps
        = filter (\<lambda>p. \<not> is_game_pod p \<or> deleteFails f (podName p)) ps"
    by (rule filter_cong) (auto simp: is_game_pod_def)
  then show ?thesis by (simp add: wipe_loop_filter)
qed

lemma explosion_not_game_pod: "\<not> IsPodName ''explosion'' \<and> \<not> IsHintPodName ''explosion''"
  by (simp add: IsPodName_def IsHintPodName_def match_groups_def)


lemma HandleMineHit_after_save:
  assumes "Reveal state (X c) (Y c) = Some (b, revealed)"
    and "Save st (store w) (SetLost revealed now) = Some (None, s')"
    and "\<not> listFails f"
  shows "HandleMineHit st f now w state c =
           (case spawnExplosionPod f c
                   (filter (\<lambda>p. \<not> is_game_pod p \<or> deleteFails f (podName p)) (pods w)) of
              (err, ps') \<Rightarrow> Some (err, \<lparr>store = s', pods = ps'\<rparr>))"
  using assms
  by (simp add: HandleMineHit_def save_then_def wipeGamePods_def client_List_def wipe_loop_self)

text \<open>
  Claim C3 (as amended). On a well-formed state, for an unrevealed mine coordinate,
  \<open>HandleMineHit\<close> marks the coordinate revealed, sets the status to Lost, records the end time
  and saves that state. When the save fails, the error is returned and no pod is touched; when
  listing the pods fails, the error is returned after the save and no pod is touched. Otherwise
  every pod named \<open>pod-x-y\<close> or \<open>hint-x-y\<close> whose deletion does not fail is deleted (the pods
  whose deletion fails stay, and the handler goes on), and one marker pod named \<open>explosion\<close> is
  created: there is then exactly one such pod, and no grid or hint pod is left when no
  deletion failed.
\<close>

theorem HandleMineHit_defeat:
  assumes "wf_state state"
    and "IsMine state (X c) (Y c) = Some True"
    and "IsRevealed state (X c) (Y c) = Some False"
  shows "\<exists>revealed. Reveal state (X c) (Y c) = Some (True, revealed) \<and>
      IsRevealed (SetLost revealed now) (X c) (Y c) = Some True \<and>
      Status (SetLost revealed now) = StatusLost \<and> EndedAt (SetLost revealed now) = Some now \<and>
      (\<forall>err s'. Save st (store w) (SetLost revealed now) = Some (Some err, s') \<longrightarrow>
          HandleMineHit st f now w state c = Some (Some err, w\<lparr>store := s'\<rparr>)) \<and>
      (\<forall>s'. Save st (store w) (SetLost revealed now) = Some (None, s') \<and> listFails f \<longrightarrow>
          HandleMineHit st f now w state c = Some (Some ErrClient, \<lparr>store = s', pods = pods w\<rparr>)) \<and>
      (\<forall>s'. Save st (store w) (SetLost revealed now) = Some (None, s') \<and> \<not> listFails f \<and>
            \<not> createFails f ''explosion'' 0 \<and> ''explosion'' \<notin> set (map podName (pods w)) \<longrightarrow>
          HandleMineHit st f now w state c =
            Some (None, \<lparr>store = s',
                         pods = filter (\<lambda>p. \<not> is_game_pod p \<or> deleteFails f (podName p)) (pods w)
                                  @ [explosion_pod]\<rparr>) \<and>
          length (filter (\<lambda>p. podName p = ''explosion'')
                    (filter (\<lambda>p. \<not> is_game_pod p \<or> deleteFails f (podName p)) (pods w)
                       @ [explosion_pod])) = 1 \<and>
          ((\<forall>p\<in>set (pods w). \<not> deleteFails f (podName p)) \<longrightarrow>
             list_all (\<lambda>p. \<not> is_game_pod p)
               (filter (\<lambda>p. \<not> is_game_pod p \<or> deleteFails f (podName p)) (pods w)
                  @ [explosion_pod])))"
proof -
  have valid: "IsValidCoordinate state (X c) (Y c)"
    using assms(2) by (auto simp: IsMine_def split: if_splits)
  obtain b revealed where r: "Reveal state (X c) (Y c) = Some (b, revealed)"
    using Reveal_wf[OF assms(1)] by blast
  have b: "b" using r assms(3) valid
    by (auto simp: Reveal_def IsRevealed_def split: if_splits option.splits)
  have rev: "IsRevealed revealed (X c) (Y c) = Some True"
    using r assms(3) valid
    by (auto simp: Reveal_def IsRevealed_def IsValidCoordinate_def dest: store2_index_same
        split: if_splits option.splits)
  have 1: "IsRevealed (SetLost revealed now) (X c) (Y c) = Some True"
    using rev by (auto simp: SetLost_def IsRevealed_def IsValidCoordinate_def split: if_splits)
  have 2: "Status (SetLost revealed now) = StatusLost" "EndedAt (SetLost revealed now) = Some now"
    by (simp_all add: SetLost_def)
  have 3: "\<forall>err s'. Save st (store w) (SetLost revealed now) = Some (Some err, s') \<longrightarrow>
          HandleMineHit st f now w state c = Some (Some err, w\<lparr>store := s'\<rparr>)"
    using r by (simp add: HandleMineHit_def save_then_def)
  have 4: "\<forall>s'. Save st (store w) (SetLost revealed now) = Some (None, s') \<and> listFails f \<longrightarrow>
          HandleMineHit st f now w state c = Some (Some ErrClient, \<lparr>store = s', pods = pods w\<rparr>)"
    using r by (simp add: HandleMineHit_def save_then_def wipeGamePods_def client_List_def)
  let ?rest = "filter (\<lambda>p. \<not> is_game_pod p \<or> deleteFails f (podName p)) (pods w)"
  have names: "''explosion'' \<notin> set (map podName (pods w)) \<Longrightarrow>
      ''explosion'' \<notin> set (map podName ?rest)"
    by auto
  have 5: "\<forall>s'. Save st (store w) (SetLost revealed now) = Some (None, s') \<and> \<not> listFails f \<and>
            \<not> createFails f ''explosion'' 0 \<and> ''explosion'' \<notin> set (map podName (pods w)) \<longrightarrow>
          HandleMineHit st f now w state c = Some (None, \<lparr>store = s', pods = ?rest @ [explosion_pod]\<rparr>)"
  proof (intro allI impI)
    fix s'
    assume a: "Save st (store w) (SetLost revealed now) = Some (None, s') \<and> \<not> listFails f \<and>
            \<not> createFails f ''explosion'' 0 \<and> ''explosion'' \<notin> set (map podName (pods w))"
    have n: "''explosion'' \<notin> set (map podName ?rest)" using a names by blast
    have "spawnExplosionPod f c ?rest = (None, ?rest @ [explosion_pod])"
      using a n by (simp add: spawnExplosionPod_def client_Create_def explosion_pod_def)
    then show "HandleMineHit st f now w state c
        = Some (None, \<lparr>store = s', pods = ?rest @ [explosion_pod]\<rparr>)"
      using HandleMineHit_after_save[OF r, of st w now s' f] a by simp
  qed
  have none: "''explosion'' \<notin> set (map podName (pods w)) \<Longrightarrow>
      filter (\<lambda>p. podName p = ''explosion'') ?rest = []"
    by (force simp: filter_empty_conv)
  have 6: "''explosion'' \<notin> set (map podName (pods w)) \<longrightarrow>
      length (filter (\<lambda>p. podName p = ''explosion'') (?rest @ [explosion_pod])) = 1"
    using none by (simp add: explosion_pod_def)
  have 7: "(\<forall>p\<in>set (pods w). \<not> deleteFails f (podName p)) \<longrightarrow>
             list_all (\<lambda>p. \<not> is_game_pod p) (?rest @ [explosion_pod])"
    using explosion_not_game_pod
    by (auto simp: list_all_iff is_game_pod_def explosion_pod_def)
  have r': "Reveal state (X c) (Y c) = Some (True, revealed)" using r b by simp
  have 8: "\<forall>s'. Save st (store w) (SetLost revealed now) = Some (None, s') \<and> \<not> listFails f \<and>
            \<not> createFails f ''explosion'' 0 \<and> ''explosion'' \<notin> set (map podName (pods w)) \<longrightarrow>
          HandleMineHit st f now w state c =
            Some (None, \<lparr>store = s', pods = ?rest @ [explosion_pod]\<rparr>) \<and>
          length (filter (\<lambda>p. podName p = ''explosion'') (?rest @ [explosion_pod])) = 1 \<and>
          ((\<forall>p\<in>set (pods w). \<not> deleteFails f (podName p)) \<longrightarrow>
             list_all (\<lambda>p. \<not> is_game_pod p) (?rest @ [explosion_pod]))"
    using 5 6 7 by blast
  show ?thesis
    by (rule exI[of _ revealed]) (intro conjI r' 1 2 3 4 8)
qed

definition exploded_B :: GameState where
  "exploded_B =
     scenario_B\<lparr>Revealed := [[False, False, False, False], [False, False, False, False],
                              [False, False, False, False], [True, False, False, False]],
                 Clicks := 1, Status := StatusLost, EndedAt := Some 9\<rparr>"

definition other_pod :: Pod where
  "other_pod = \<lparr> podName = ''nginx'', podComponent = ''web'', podHint = None,
                  podTerminating = False \<rparr>"

definition hint_pod :: "Coordinate \<Rightarrow> int \<Rightarrow> Pod" where
  "hint_pod c n = \<lparr> podName = HintPodName c, podComponent = ''hint'', podHint = Some n,
                    podTerminating = False \<rparr>"

definition world_B :: "MemoryStore World" where
  "world_B = \<lparr> store = Some scenario_B,
               pods = [cell_pod (Coordinate 0 1), other_pod, hint_pod (Coordinate 2 0) 1,
                       cell_pod (Coordinate 3 0)] \<rparr>"

theorem HandleMineHit_defeat_witness:
  "wf_state scenario_B \<and> IsMine scenario_B 3 0 = Some True \<and>
   IsRevealed scenario_B 3 0 = Some False \<and>
   Save memory_store (store world_B) exploded_B = Some (None, Some exploded_B) \<and>
   HandleMineHit memory_store no_faults 9 world_B scenario_B (Coordinate 3 0)
     = Some (None, \<lparr>store = Some exploded_B, pods = [other_pod, explosion_pod]\<rparr>)"
proof -
  have h1: "wf_state scenario_B" by code_simp
  have h2: "IsMine scenario_B (X (Coordinate 3 0)) (Y (Coordinate 3 0)) = Some True" by code_simp
  have h3: "IsRevealed scenario_B (X (Coordinate 3 0)) (Y (Coordinate 3 0)) = Some False"
    by code_simp
  have wf: "wf_state exploded_B" by code_simp
  have sv: "Save memory_store (store world_B) exploded_B = Some (None, Some exploded_B)"
    by (simp add: memory_store_def MemoryStore_Save_def Clone_wf[OF wf])
  have r: "HandleMineHit memory_store no_faults 9 world_B scenario_B (Coordinate 3 0)
     = Some (None, \<lparr>store = Some exploded_B, pods = [other_pod, explosion_pod]\<rparr>)"
    by code_simp
  show ?thesis
    using h1 h2 h3 sv r
      HandleMineHit_defeat[OF h1 h2 h3, of 9 memory_store world_B no_faults]
    by simp
qed

text \<open>A store whose \<open>Save\<close> always fails.\<close>

definition unwritable_store :: "unit Store" where
  "unwritable_store = \<lparr> Load = (\<lambda>s. Some (Inr (Some scenario_B))),
                          Save = (\<lambda>s state. Some (Some ErrStore, s)) \<rparr>"

definition faults_B :: Faults where
  "faults_B = no_faults\<lparr>deleteFails := (\<lambda>name. name = ''pod-0-1'')\<rparr>"

text \<open>
  The claim as the specification words it: after the handler no grid or hint resource is left
  and the marker is the resource "defeat". With one deletion failing, the handler still returns
  without error, the pod whose deletion failed is still there, and the marker it created is
  named "explosion". With the save failing, the handler returns that error and deletes and
  creates nothing.
\<close>

theorem HandleMineHit_counterexample:
  "Status scenario_B = StatusPlaying \<and> IsMine scenario_B 3 0 = Some True \<and>
   IsRevealed scenario_B 3 0 = Some False \<and>
   map_option (\<lambda>r. (fst r, map podName (pods (snd r))))
       (HandleMineHit memory_store faults_B 9 world_B scenario_B (Coordinate 3 0))
     = Some (None, [''pod-0-1'', ''nginx'', ''explosion'']) \<and>
   IsPodName ''pod-0-1'' \<and>
   map_option (\<lambda>r. (fst r, map podName (pods (snd r))))
       (HandleMineHit unwritable_store no_faults 9 \<lparr>store = (), pods = pods world_B\<rparr> scenario_B
          (Coordinate 3 0))
     = Some (Some ErrStore, [''pod-0-1'', ''nginx'', ''hint-2-0'', ''pod-3-0''])"
  by code_simp

subsection \<open>Which identifiers are game events\<close>

text \<open>
  Claim C2 (as amended). \<open>ParsePodName\<close> succeeds on exactly the identifiers of the form
  \<open>pod-<digits>-<digits>\<close> (the language of \<open>^pod-(\d+)-(\d+)$\<close>) whose two numbers fit a
  64-bit \<open>int\<close>, and returns these two numbers; \<open>ParseHintPodName\<close> does the same with the
  prefix \<open>hint-\<close>. \<open>Reconcile\<close> ignores, with no error and no change, every identifier on
  which \<open>ParsePodName\<close> fails, and hands the coordinate of every other one to
  \<open>handlePodDeletion\<close> once the pod is gone. The names the system gives, \<open>pod-x-y\<close> and
  \<open>hint-x-y\<close>, parse back to \<open>(x, y)\<close> for coordinates from 0 to \<open>2 ^ 63 - 1\<close>.
\<close>

theorem ParsePodName_strict:
  "(ParsePodName name = Some c \<longleftrightarrow>
      (\<exists>m1 m2. name = ''pod-'' @ m1 @ ''-'' @ m2 \<and> digits m1 \<and> digits m2 \<and>
         decimal m1 \<le> 2 ^ 63 - 1 \<and> decimal m2 \<le> 2 ^ 63 - 1 \<and>
         c = Coordinate (decimal m1) (decimal m2))) \<and>
   (ParseHintPodName name = Some c \<longleftrightarrow>
      (\<exists>m1 m2. name = ''hint-'' @ m1 @ ''-'' @ m2 \<and> digits m1 \<and> digits m2 \<and>
         decimal m1 \<le> 2 ^ 63 - 1 \<and> decimal m2 \<le> 2 ^ 63 - 1 \<and>
         c = Coordinate (decimal m1) (decimal m2))) \<and>
   (ParsePodName name = None \<longrightarrow> Reconcile st f now ns (rns, name) w = Some (None, w)) \<and>
   (ParsePodName name = Some c \<and> rns = ns \<and> client_Get f name (pods w) = GetNotFound \<longrightarrow>
      Reconcile st f now ns (rns, name) w = handlePodDeletion st f now w c) \<and>
   (0 \<le> x \<and> x < 2 ^ 63 \<and> 0 \<le> y \<and> y < 2 ^ 63 \<longrightarrow>
      ParsePodName (PodName (Coordinate x y)) = Some (Coordinate x y) \<and>
      ParseHintPodName (HintPodName (Coordinate x y)) = Some (Coordinate x y) \<and>
      ParsePodName (GeneratePodName x y) = Some (Coordinate x y) \<and>
      ParseHintPodName (GenerateHintPodName x y) = Some (Coordinate x y))"
proof -
  have 1: "ParsePodName name = Some c \<longleftrightarrow>
      (\<exists>m1 m2. name = ''pod-'' @ m1 @ ''-'' @ m2 \<and> digits m1 \<and> digits m2 \<and>
         decimal m1 \<le> 2 ^ 63 - 1 \<and> decimal m2 \<le> 2 ^ 63 - 1 \<and>
         c = Coordinate (decimal m1) (decimal m2))"
    unfolding ParsePodName_def by (rule parse_name_iff)
  have 2: "ParseHintPodName name = Some c \<longleftrightarrow>
      (\<exists>m1 m2. name = ''hint-'' @ m1 @ ''-'' @ m2 \<and> digits m1 \<and> digits m2 \<and>
         decimal m1 \<le> 2 ^ 63 - 1 \<and> decimal m2 \<le> 2 ^ 63 - 1 \<and>
         c = Coordinate (decimal m1) (decimal m2))"
    unfolding ParseHintPodName_def by (rule parse_name_iff)
  have 3: "ParsePodName name = None \<longrightarrow> Reconcile st f now ns (rns, name) w = Some (None, w)"
    by (simp add: Reconcile_def)
  have 4: "ParsePodName name = Some c \<and> rns = ns \<and> client_Get f name (pods w) = GetNotFound \<longrightarrow>
      Reconcile st f now ns (rns, name) w = handlePodDeletion st f now w c"
    by (simp add: Reconcile_def)
  have 5: "0 \<le> x \<and> x < 2 ^ 63 \<and> 0 \<le> y \<and> y < 2 ^ 63 \<longrightarrow>
      ParsePodName (PodName (Coordinate x y)) = Some (Coordinate x y) \<and>
      ParseHintPodName (HintPodName (Coordinate x y)) = Some (Coordinate x y) \<and>
      ParsePodName (GeneratePodName x y) = Some (Coordinate x y) \<and>
      ParseHintPodName (GenerateHintPodName x y) = Some (Coordinate x y)"
    using parse_name_print[of x y "''pod-''"] parse_name_print[of x y "''hint-''"]
    by (simp add: ParsePodName_def ParseHintPodName_def PodName_def HintPodName_def
        GeneratePodName_def GenerateHintPodName_def)
  show ?thesis by (intro conjI 1 2 3 4 5)
qed

theorem ParsePodName_strict_witness:
  "ParsePodName ''nginx'' = None \<and>
   Reconcile memory_store no_faults 5 ''podsweeper-game'' (''podsweeper-game'', ''nginx'') world_B
     = Some (None, world_B) \<and>
   (0::int) \<le> 3 \<and> (3::int) < 2 ^ 63 \<and> (0::int) \<le> 5 \<and> (5::int) < 2 ^ 63 \<and>
   PodName (Coordinate 3 5) = ''pod-3-5'' \<and>
   ParsePodName (PodName (Coordinate 3 5)) = Some (Coordinate 3 5) \<and>
   ParseHintPodName (HintPodName (Coordinate 3 5)) = Some (Coordinate 3 5)"
proof -
  have h: "ParsePodName ''nginx'' = None" by code_simp
  have n: "PodName (Coordinate 3 5) = ''pod-3-5''" by code_simp
  show ?thesis
    using h n
      ParsePodName_strict[of "''nginx''" "Coordinate 0 0" memory_store no_faults 5
        "''podsweeper-game''" "''podsweeper-game''" world_B 3 5]
    by simp
qed

text \<open>
  The claim as the specification words it names the grid cells \<open>cell-x-y\<close> and makes every
  identifier of the two forms a game event. In the code an identifier \<open>cell-1-2\<close> is not a
  game event and a cell of the grid is named \<open>pod-1-2\<close>, which matches neither of the claim's
  two patterns and is a game event; a hint identifier parses but \<open>Reconcile\<close> ignores it; and an
  identifier of the right form whose number does not fit an \<open>int\<close> is not a game event.
\<close>

theorem identifier_counterexample:
  "match_groups ''cell-'' ''cell-1-2'' = Some (''1'', ''2'') \<and>
   ParsePodName ''cell-1-2'' = None \<and> ParseHintPodName ''cell-1-2'' = None \<and>
   Reconcile memory_store no_faults 5 ''podsweeper-game'' (''podsweeper-game'', ''cell-1-2'') world_B
     = Some (None, world_B) \<and>
   PodName (Coordinate 1 2) = ''pod-1-2'' \<and>
   match_groups ''cell-'' ''pod-1-2'' = None \<and> match_groups ''hint-'' ''pod-1-2'' = None \<and>
   ParsePodName ''pod-1-2'' = Some (Coordinate 1 2) \<and>
   Reconcile memory_store no_faults 5 ''podsweeper-game'' (''podsweeper-game'', ''pod-1-2'') world_B
     \<noteq> Some (None, world_B) \<and>
   ParseHintPodName ''hint-1-2'' = Some (Coordinate 1 2) \<and>
   Reconcile memory_store no_faults 5 ''podsweeper-game'' (''podsweeper-game'', ''hint-1-2'') world_B
     = Some (None, world_B) \<and>
   match_groups ''pod-'' ''pod-9223372036854775808-0'' = Some (''9223372036854775808'', ''0'') \<and>
   ParsePodName ''pod-9223372036854775808-0'' = None"
  by code_simp

subsection \<open>Coordinates outside the grid\<close>

lemma out_of_bounds_accessors:
  "\<not> IsValidCoordinate g x y \<Longrightarrow>
     IsMine g x y = Some False \<and> IsRevealed g x y = Some False \<and>
     Reveal g x y = Some (False, g) \<and> SetMine g x y = Some (False, g)"
  by (simp add: IsMine_def IsRevealed_def Reveal_def SetMine_def)

lemma neighbors_in_bounds:
  "\<forall>c\<in>set (GetNeighbors g x y). IsValidCoordinate g (X c) (Y c)"
  using GetNeighbors_grid[of g x y] by (auto simp: grid_def)

lemma adjacency_never_panics:
  "wf_state g \<Longrightarrow> \<exists>n. AdjacentMines g x y = Some n \<and> 0 \<le> n \<and> n \<le> 8"
  using AdjacentMines_wf[of g x y] AdjacentMines_bounds[of g x y] by auto

text \<open>A 3 x 3 game with one mine at (0, 0), every cell pod in place, nothing revealed.\<close>

definition grid3 :: GameState where
  "grid3 =
     \<lparr> Size = 3, Seed = 1, Level = 0, Status = StatusPlaying,
       MineMap = [[True, False, False], [False, False, False], [False, False, False]],
       Revealed = [[False, False, False], [False, False, False], [False, False, False]],
       HintCells = [], MineCount = 1, StartedAt = Some 0, EndedAt = None, Clicks = 0 \<rparr>"

definition world3 :: "MemoryStore World" where
  "world3 = \<lparr> store = Some grid3,
              pods = map (\<lambda>c. cell_pod (Coordinate (fst c) (snd c))) (grid_indices 3) \<rparr>"

text \<open>
  A coordinate with no in-bounds neighbour is harmless: the flood-fill from (99, 99) finds
  nothing to enqueue, \<open>Reveal\<close> refuses the coordinate, and the state is saved as it was.
\<close>

lemma far_outside_deletion_is_harmless:
  "ParsePodName ''pod-99-99'' = Some (Coordinate 99 99) \<and>
   Reconcile memory_store no_faults 5 ''podsweeper-game'' (''podsweeper-game'', ''pod-99-99'') world3
     = Some (None, world3)"
  by code_simp

text \<open>
  Claim C10 says that a deletion whose coordinate lies outside the grid changes neither
  matrix. The accessors do guard their bounds (the first three lemmas above), but \<open>handlePodDeletion\<close>
  does not: the pod name \<open>pod-3-1\<close> names no cell of a 3 x 3 grid, its adjacency count is 0, and
  the flood-fill started from it walks into the grid through the in-bounds neighbours of
  (3, 1). Every safe cell ends up revealed and the game is won.
\<close>

theorem out_of_grid_deletion_floods:
  "ParsePodName ''pod-3-1'' = Some (Coordinate 3 1) \<and> \<not> IsValidCoordinate grid3 3 1 \<and>
   wf_state grid3 \<and>
   map_option (\<lambda>r. (fst r, map_option Revealed (store (snd r)), map_option Status (store (snd r))))
       (Reconcile memory_store no_faults 5 ''podsweeper-game'' (''podsweeper-game'', ''pod-3-1'')
          world3)
     = Some (None, Some [[False, True, True], [True, True, True], [True, True, True]],
             Some StatusWon)"
  by code_simp

section \<open>Grid generation (package grid)\<close>

subsection \<open>The float64 arithmetic of CalculateMineCount\<close>

text \<open>
  A \<open>float64\<close> is modelled by a pair \<open>(m, e)\<close> of integers that stands for \<open>m * 2 ^ e\<close>.
  \<open>round53\<close> is IEEE 754 rounding to nearest, ties to even, to a significand of 53 bits;
  the exponent range of the format plays no part here (the values are products of a cell
  count and a density). The product of two floats is the exact product, rounded; the
  conversion of an \<open>int\<close> is the integer, rounded; \<open>int(f)\<close> drops the fraction (towards zero).
\<close>

type_synonym float64 = "int \<times> int"

definition fval :: "float64 \<Rightarrow> rat" where
  "fval x = of_int (fst x) * 2 powi (snd x)"

definition round53 :: "float64 \<Rightarrow> float64" where
  "round53 x =
     (let a = \<bar>fst x\<bar>; k = bitlen a - 53
      in if k \<le> 0 then x
         else (let q = a div 2 ^ nat k; r = a mod 2 ^ nat k; half = 2 ^ nat (k - 1);
                   q' = (if r > half \<or> (r = half \<and> odd q) then q + 1 else q)
               in (sgn (fst x) * q', snd x + k)))"

definition float_of_int :: "int \<Rightarrow> float64" where
  "float_of_int n = round53 (n, 0)"

definition fmul :: "float64 \<Rightarrow> float64 \<Rightarrow> float64" where
  "fmul x y = round53 (fst x * fst y, snd x + snd y)"

definition fless :: "float64 \<Rightarrow> float64 \<Rightarrow> bool" where
  "fless x y \<longleftrightarrow>
     (let e = min (snd x) (snd y)
      in fst x * 2 ^ nat (snd x - e) < fst y * 2 ^ nat (snd y - e))"

definition int_of_float :: "float64 \<Rightarrow> int" where
  "int_of_float x =
     (if snd x \<ge> 0 then fst x * 2 ^ nat (snd x)
      else sgn (fst x) * (\<bar>fst x\<bar> div 2 ^ nat (- snd x)))"

text \<open>The constants \<open>0.05\<close>, \<open>0.15\<close> and \<open>0.50\<close>, as the nearest \<open>float64\<close>.\<close>

definition MinMineDensity :: float64 where
  "MinMineDensity = (3602879701896397, - 56)"

definition DefaultMineDensity :: float64 where
  "DefaultMineDensity = (5404319552844595, - 55)"

definition MaxMineDensity :: float64 where
  "MaxMineDensity = (1, - 1)"

definition DefaultSize :: int where
  "DefaultSize = 10"

subsection \<open>Config\<close>

record Config =
  Size_cfg :: int
  Seed_cfg :: "64 word"
  MineDensity :: float64
  MinMineCount :: int
  MaxMineCount :: int

definition DefaultConfig :: Config where
  "DefaultConfig = \<lparr> Size_cfg = DefaultSize, Seed_cfg = 0, MineDensity = DefaultMineDensity,
                      MinMineCount = 1, MaxMineCount = 0 \<rparr>"

datatype config_error =
    SizeTooSmall | SizeTooLarge | DensityTooLow | DensityTooHigh
  | MinCountNegative | MaxCountNegative | MinExceedsMax

definition Validate :: "Config \<Rightarrow> config_error option" where
  "Validate c =
     (if Size_cfg c < 1 then Some SizeTooSmall
      else if Size_cfg c > 100 then Some SizeTooLarge
      else if fless (MineDensity c) MinMineDensity then Some DensityTooLow
      else if fless MaxMineDensity (MineDensity c) then Some DensityTooHigh
      else if MinMineCount c < 0 then Some MinCountNegative
      else if MaxMineCount c < 0 then Some MaxCountNegative
      else if MaxMineCount c > 0 \<and> MinMineCount c > MaxMineCount c then Some MinExceedsMax
      else None)"

text \<open>
  \<open>wrap64\<close> is the value a 64-bit \<open>int\<close> holds after an arithmetic operation: \<open>Size * Size\<close>
  and \<open>totalCells - 1\<close> wrap around.
\<close>

definition wrap64 :: "int \<Rightarrow> int" where
  "wrap64 v = (v + 2 ^ 63) mod 2 ^ 64 - 2 ^ 63"

definition CalculateMineCount :: "Config \<Rightarrow> int" where
  "CalculateMineCount c =
     (let totalCells = wrap64 (Size_cfg c * Size_cfg c);
          mineCount = int_of_float (fmul (float_of_int totalCells) (MineDensity c));
          mineCount = (if mineCount < MinMineCount c then MinMineCount c else mineCount);
          mineCount = (if MaxMineCount c > 0 \<and> mineCount > MaxMineCount c
                       then MaxMineCount c else mineCount);
          maxPossible = wrap64 (totalCells - 1)
      in if mineCount > maxPossible then maxPossible else mineCount)"

text \<open>
  The mine count in the words of the specification: \<open>round (size\<^sup>2 * density)\<close>, clamped to
  \<open>[minMineCount, min (maxMineCount or \<infinity>) (size\<^sup>2 - 1)]\<close>.
\<close>

definition spec_mine_count :: "Config \<Rightarrow> int" where
  "spec_mine_count c =
     (let total = Size_cfg c * Size_cfg c;
          hi = (if MaxMineCount c > 0 then min (MaxMineCount c) (total - 1) else total - 1)
      in max (MinMineCount c) (min hi (round (of_int total * fval (MineDensity c)))))"



subsection \<open>The rounding is to the nearest float\<close>

lemma density_constants:
  "\<bar>fval MinMineDensity - 1 / 20\<bar> \<le> 2 powi (- 58) \<and>
   \<bar>fval DefaultMineDensity - 3 / 20\<bar> \<le> 2 powi (- 56) \<and>
   fval MaxMineDensity = 1 / 2"
  by code_simp

text \<open>The table of \<open>TestConfigCalculateMineCount\<close>.\<close>

lemma CalculateMineCount_test_table:
  "CalculateMineCount \<lparr> Size_cfg = 10, Seed_cfg = 0, MineDensity = DefaultMineDensity,
                          MinMineCount = 1, MaxMineCount = 0 \<rparr> = 15 \<and>
   CalculateMineCount \<lparr> Size_cfg = 5, Seed_cfg = 0, MineDensity = MinMineDensity,
                          MinMineCount = 5, MaxMineCount = 0 \<rparr> = 5 \<and>
   CalculateMineCount \<lparr> Size_cfg = 10, Seed_cfg = 0, MineDensity = MaxMineDensity,
                          MinMineCount = 1, MaxMineCount = 20 \<rparr> = 20 \<and>
   CalculateMineCount \<lparr> Size_cfg = 3, Seed_cfg = 0, MineDensity = MaxMineDensity,
                          MinMineCount = 1, MaxMineCount = 0 \<rparr> = 4 \<and>
   CalculateMineCount \<lparr> Size_cfg = 2, Seed_cfg = 0, MineDensity = MaxMineDensity,
                          MinMineCount = 1, MaxMineCount = 0 \<rparr> = 2"
  by code_simp

lemma round53_exact: "\<bar>m\<bar> < 2 ^ 53 \<Longrightarrow> round53 (m, e) = (m, e)"
proof -
  assume "\<bar>m\<bar> < 2 ^ 53"
  then have "bitlen \<bar>m\<bar> \<le> 53" using bitlen_le_iff_power[of "\<bar>m\<bar>" 53] by simp
  then show ?thesis by (simp add: round53_def)
qed

lemma round53_error:
  assumes "round53 (m, e) = (m', e')"
  shows "e \<le> e' \<and> 2 * \<bar>m' * 2 ^ nat (e' - e) - m\<bar> \<le> 2 ^ nat (e' - e)"
proof (cases "bitlen \<bar>m\<bar> - 53 \<le> 0")
  case True
  then show ?thesis using assms by (simp add: round53_def)
next
  case False
  define k where "k = nat (bitlen \<bar>m\<bar> - 53)"
  define q where "q = \<bar>m\<bar> div 2 ^ k"
  define r where "r = \<bar>m\<bar> mod 2 ^ k"
  define q' where "q' = (if r > 2 ^ (k - 1) \<or> (r = 2 ^ (k - 1) \<and> odd q) then q + 1 else q)"
  have k: "0 < k" "int k = bitlen \<bar>m\<bar> - 53" using False by (simp_all add: k_def)
  have res: "m' = sgn m * q'" "e' = e + int k"
    using assms False k(1)
    by (auto simp: round53_def Let_def k_def q_def r_def q'_def nat_diff_distrib'
        split: if_splits)
  have split: "\<bar>m\<bar> = q * 2 ^ k + r"
    unfolding q_def r_def by (rule div_mult_mod_eq[symmetric])
  have r: "0 \<le> r" "r < 2 ^ k" by (simp_all add: r_def)
  have pk: "(2::int) ^ k = 2 * 2 ^ (k - 1)" using k(1) by (cases k) simp_all
  have "2 * \<bar>q' * 2 ^ k - \<bar>m\<bar>\<bar> \<le> 2 ^ k"
  proof (cases "r > 2 ^ (k - 1) \<or> (r = 2 ^ (k - 1) \<and> odd q)")
    case True
    then have "q' * 2 ^ k - \<bar>m\<bar> = 2 ^ k - r"
      by (simp add: q'_def split algebra_simps)
    then show ?thesis using True r pk by auto
  next
    case False
    then have "q' * 2 ^ k - \<bar>m\<bar> = - r"
      by (simp add: q'_def split)
    then show ?thesis using False r pk by auto
  qed
  moreover have "m \<noteq> 0" using False by auto
  then have "\<bar>sgn m * q' * 2 ^ k - m\<bar> = \<bar>q' * 2 ^ k - \<bar>m\<bar>\<bar>"
    by (cases "m < 0") (auto simp: sgn_if abs_if)
  ultimately show ?thesis using res by simp
qed

subsection \<open>The bounds of the mine count\<close>

lemma wrap64_id: "- (2 ^ 63) \<le> v \<Longrightarrow> v < 2 ^ 63 \<Longrightarrow> wrap64 v = v"
  by (simp add: wrap64_def)

lemma valid_size:
  assumes "Validate c = None"
  shows "1 \<le> Size_cfg c" "Size_cfg c \<le> 100" "1 \<le> Size_cfg c * Size_cfg c"
    "Size_cfg c * Size_cfg c \<le> 10000"
proof -
  show 1: "1 \<le> Size_cfg c" and 2: "Size_cfg c \<le> 100"
    using assms by (auto simp: Validate_def split: if_splits)
  show "1 \<le> Size_cfg c * Size_cfg c" using mult_mono[of 1 "Size_cfg c" 1 "Size_cfg c"] 1 by simp
  show "Size_cfg c * Size_cfg c \<le> 10000"
    using mult_mono[of "Size_cfg c" 100 "Size_cfg c" 100] 1 2 by simp
qed

lemma valid_counts:
  assumes "Validate c = None"
  shows "0 \<le> MinMineCount c" "0 \<le> MaxMineCount c"
    "MaxMineCount c > 0 \<Longrightarrow> MinMineCount c \<le> MaxMineCount c"
  using assms by (auto simp: Validate_def split: if_splits)

lemma valid_total:
  assumes "Validate c = None"
  shows "wrap64 (Size_cfg c * Size_cfg c) = Size_cfg c * Size_cfg c"
    "wrap64 (Size_cfg c * Size_cfg c - 1) = Size_cfg c * Size_cfg c - 1"
  using valid_size(3,4)[OF assms] by (simp_all add: wrap64_id)

text \<open>
  Claim C4 (as amended). For every valid config the mine count is the float64 product
  \<open>float64 (size\<^sup>2) * density\<close> with its fraction dropped, then raised to \<open>minMineCount\<close>, then
  lowered to \<open>maxMineCount\<close> when that is set, then lowered to \<open>size\<^sup>2 - 1\<close>. It lies within
  \<open>[min minMineCount (size\<^sup>2 - 1), min (maxMineCount or size\<^sup>2 - 1) (size\<^sup>2 - 1)]\<close>, it is not
  negative and it is less than the number of cells: one cell at least is safe.
\<close>

theorem CalculateMineCount_bounds:
  assumes "Validate c = None"
  shows "(let total = Size_cfg c * Size_cfg c;
              raw = int_of_float (fmul (float_of_int total) (MineDensity c));
              low = max raw (MinMineCount c);
              capped = (if MaxMineCount c > 0 then min low (MaxMineCount c) else low)
          in CalculateMineCount c = min capped (total - 1) \<and>
             min (MinMineCount c) (total - 1) \<le> CalculateMineCount c \<and>
             CalculateMineCount c
               \<le> min (if MaxMineCount c > 0 then MaxMineCount c else total - 1) (total - 1) \<and>
             0 \<le> CalculateMineCount c \<and> CalculateMineCount c < total)"
proof -
  define total where "total = Size_cfg c * Size_cfg c"
  define raw where "raw = int_of_float (fmul (float_of_int total) (MineDensity c))"
  define low where "low = max raw (MinMineCount c)"
  define capped where "capped = (if MaxMineCount c > 0 then min low (MaxMineCount c) else low)"
  have eq: "CalculateMineCount c = min capped (total - 1)"
    unfolding CalculateMineCount_def valid_total[OF assms] Let_def
    by (auto simp: total_def raw_def low_def capped_def)
  have t: "1 \<le> total" using valid_size(3)[OF assms] by (simp add: total_def)
  have lo: "MinMineCount c \<le> capped"
    using valid_counts(3)[OF assms] by (auto simp: capped_def low_def)
  have hi: "MaxMineCount c > 0 \<Longrightarrow> capped \<le> MaxMineCount c" by (simp add: capped_def)
  have 1: "min (MinMineCount c) (total - 1) \<le> CalculateMineCount c"
    unfolding eq using lo by (auto simp: min_def)
  have 2: "CalculateMineCount c
             \<le> min (if MaxMineCount c > 0 then MaxMineCount c else total - 1) (total - 1)"
    unfolding eq using hi by (auto simp: min_def)
  have 3: "0 \<le> CalculateMineCount c" using 1 valid_counts(1)[OF assms] t by simp
  have 4: "CalculateMineCount c < total" unfolding eq by (auto simp: min_def)
  show ?thesis
    using eq 1 2 3 4 unfolding Let_def total_def raw_def low_def capped_def by blast
qed

definition test_config :: Config where
  "test_config = \<lparr> Size_cfg = 3, Seed_cfg = 0, MineDensity = MaxMineDensity,
                     MinMineCount = 1, MaxMineCount = 0 \<rparr>"

theorem CalculateMineCount_bounds_witness:
  "Validate test_config = None \<and> CalculateMineCount test_config = 4 \<and>
   min (MinMineCount test_config) (3 * 3 - 1) \<le> CalculateMineCount test_config \<and>
   CalculateMineCount test_config < 3 * 3"
proof -
  have h: "Validate test_config = None" by code_simp
  have v: "CalculateMineCount test_config = 4" by code_simp
  have s: "Size_cfg test_config = 3" by (simp add: test_config_def)
  show ?thesis
    using h v CalculateMineCount_bounds[OF h] unfolding Let_def s by simp
qed

text \<open>
  The claim as the specification words it takes the rounded product. For the configuration of
  the repository's own test (3 x 3, density 0.5, expected 4) the product is 4.5: the code gives
  4, rounding gives 5. For a 2 x 2 grid of density 0.4375 the product is 1.75: the code gives
  1, rounding gives 2.
\<close>

definition quarter_config :: Config where
  "quarter_config = \<lparr> Size_cfg = 2, Seed_cfg = 0, MineDensity = (7, - 4),
                        MinMineCount = 0, MaxMineCount = 0 \<rparr>"

theorem rounding_counterexample:
  "Validate test_config = None \<and> CalculateMineCount test_config = 4 \<and>
   spec_mine_count test_config = 5 \<and>
   Validate quarter_config = None \<and> fval (MineDensity quarter_config) = 7 / 16 \<and>
   CalculateMineCount quarter_config = 1 \<and> spec_mine_count quarter_config = 2"
  by code_simp

subsection \<open>The generator\<close>

text \<open>
  \<open>math/rand\<close> is a library outside the repository: a generator is a state \<open>'r\<close>,
  \<open>rand.New (rand.NewSource seed)\<close> makes one from a seed, and \<open>Intn\<close> returns a number and
  moves the state on. A \<open>Generator\<close> holds its config and its own stream \<open>rng\<close>.
\<close>

record 'r Rand =
  NewSource :: "64 word \<Rightarrow> 'r"
  Intn :: "'r \<Rightarrow> int \<Rightarrow> int \<times> 'r"

record 'r Generator =
  config :: Config
  rng :: 'r

text \<open>\<open>random\<close> is the value \<open>rand.Int63()\<close> returns when the config has no seed.\<close>

definition NewGenerator :: "'r Rand \<Rightarrow> 64 word \<Rightarrow> Config \<Rightarrow> config_error + 'r Generator" where
  "NewGenerator R random cfg =
     (case Validate cfg of
        Some err \<Rightarrow> Inl err
      | None \<Rightarrow>
          Inr \<lparr> config = cfg,
                rng = NewSource R (if Seed_cfg cfg = 0 then random else Seed_cfg cfg) \<rparr>)"

text \<open>
  The Fisher-Yates loop \<open>for i := len(positions) - 1; i > 0; i--\<close>. The two assignments of
  the swap read both cells first. An index outside the slice panics.
\<close>

function shuffle_loop :: "'r Rand \<Rightarrow> int \<Rightarrow> int list \<times> 'r \<Rightarrow> (int list \<times> 'r) option" where
  "shuffle_loop R i (positions, r) =
     (if i > 0
      then (case Intn R r (i + 1) of
              (j, r') \<Rightarrow>
                if i < int (length positions) \<and> 0 \<le> j \<and> j < int (length positions)
                then shuffle_loop R (i - 1)
                       (positions[nat i := positions ! nat j, nat j := positions ! nat i], r')
                else None)
      else Some (positions, r))"
  by pat_completeness auto
termination
  by (relation "measure (\<lambda>(R, i, p). nat i)") auto

declare shuffle_loop.simps [simp del]

text \<open>Go's \<open>/\<close> and \<open>%\<close> on \<open>int\<close>: the quotient is cut towards zero.\<close>

definition go_quo :: "int \<Rightarrow> int \<Rightarrow> int" where
  "go_quo a b = sgn a * sgn b * (\<bar>a\<bar> div \<bar>b\<bar>)"

definition go_rem :: "int \<Rightarrow> int \<Rightarrow> int" where
  "go_rem a b = a - b * go_quo a b"

text \<open>
  The loop \<open>for i := 0; i < mineCount; i++\<close> over the list of its indices. \<open>positions[i]\<close>
  outside the slice and a division by zero panic.
\<close>

fun place_loop :: "int \<Rightarrow> int list \<Rightarrow> int list \<Rightarrow> GameState \<Rightarrow> GameState option" where
  "place_loop n positions [] state = Some state"
| "place_loop n positions (i # rest) state =
     (if i < 0 \<or> int (length positions) \<le> i \<or> n = 0 then None
      else (let pos = positions ! nat i; x = go_quo pos n; y = go_rem pos n
            in (case SetMine state x y of
                  None \<Rightarrow> None
                | Some (_, state') \<Rightarrow> place_loop n positions rest state')))"

definition placeMinesWithRNG ::
  "'r Rand \<Rightarrow> 'r Generator \<Rightarrow> GameState \<Rightarrow> 'r \<Rightarrow> (GameState \<times> 'r) option" where
  "placeMinesWithRNG R g state r =
     (let mineCount = CalculateMineCount (config g);
          totalCells = wrap64 (Size_cfg (config g) * Size_cfg (config g))
      in if totalCells < 0 then None
         else (case shuffle_loop R (totalCells - 1) ([0..totalCells - 1], r) of
                 None \<Rightarrow> None
               | Some (positions, r') \<Rightarrow>
                   map_option (\<lambda>state'. (state', r'))
                     (place_loop (Size_cfg (config g)) positions [0..mineCount - 1] state)))"

text \<open>
  \<open>Generate\<close> draws from the generator's own stream and leaves it advanced; \<open>GenerateWithSeed\<close>
  makes a stream of its own from the seed and does not touch the generator.
\<close>

definition Generate :: "'r Rand \<Rightarrow> 'r Generator \<Rightarrow> nat \<Rightarrow> (GameState \<times> 'r Generator) option" where
  "Generate R g now =
     (case NewGameState (Size_cfg (config g)) (Seed_cfg (config g)) now of
        None \<Rightarrow> None
      | Some state \<Rightarrow>
          map_option (\<lambda>(state', r'). (state', g\<lparr>rng := r'\<rparr>))
            (placeMinesWithRNG R g state (rng g)))"

definition GenerateWithSeed :: "'r Rand \<Rightarrow> 'r Generator \<Rightarrow> 64 word \<Rightarrow> nat \<Rightarrow> GameState option" where
  "GenerateWithSeed R g seed now =
     (case NewGameState (Size_cfg (config g)) seed now of
        None \<Rightarrow> None
      | Some state \<Rightarrow> map_option fst (placeMinesWithRNG R g state (NewSource R seed)))"

definition same_settings :: "Config \<Rightarrow> Config \<Rightarrow> bool" where
  "same_settings c1 c2 \<longleftrightarrow>
     Size_cfg c1 = Size_cfg c2 \<and> MineDensity c1 = MineDensity c2 \<and>
     MinMineCount c1 = MinMineCount c2 \<and> MaxMineCount c1 = MaxMineCount c2"

definition rand_in_range :: "'r Rand \<Rightarrow> bool" where
  "rand_in_range R \<longleftrightarrow> (\<forall>r n. 0 < n \<longrightarrow> 0 \<le> fst (Intn R r n) \<and> fst (Intn R r n) < n)"

subsection \<open>The layout depends on the settings and the seed only\<close>

lemma SetMine_StartedAt:
  "SetMine (g\<lparr>StartedAt := t\<rparr>) x y
     = map_option (\<lambda>(b, s). (b, s\<lparr>StartedAt := t\<rparr>)) (SetMine g x y)"
  by (simp add: SetMine_def IsValidCoordinate_def split: option.splits)

lemma place_loop_StartedAt:
  "place_loop n positions idx (g\<lparr>StartedAt := t\<rparr>)
     = map_option (\<lambda>s. s\<lparr>StartedAt := t\<rparr>) (place_loop n positions idx g)"
proof (induction idx arbitrary: g)
  case Nil
  then show ?case by simp
next
  case (Cons i idx)
  then show ?case
    by (auto simp: SetMine_StartedAt Let_def split: option.splits)
qed

lemma NewGameState_StartedAt:
  "NewGameState n seed now = map_option (\<lambda>s. s\<lparr>StartedAt := Some now\<rparr>) (NewGameState n seed 0)"
  by (simp add: NewGameState_def)

lemma GenerateWithSeed_StartedAt:
  "GenerateWithSeed R g seed now
     = map_option (\<lambda>s. s\<lparr>StartedAt := Some now\<rparr>) (GenerateWithSeed R g seed 0)"
proof (cases "NewGameState (Size_cfg (config g)) seed 0")
  case None
  then show ?thesis
    using NewGameState_StartedAt[of "Size_cfg (config g)" seed now]
    by (simp add: GenerateWithSeed_def)
next
  case (Some s0)
  then have now: "NewGameState (Size_cfg (config g)) seed now = Some (s0\<lparr>StartedAt := Some now\<rparr>)"
    using NewGameState_StartedAt[of "Size_cfg (config g)" seed now] by simp
  show ?thesis
    unfolding GenerateWithSeed_def Some now
    by (auto simp: placeMinesWithRNG_def Let_def place_loop_StartedAt option.map_comp comp_def
        split: option.splits)
qed

lemma GenerateWithSeed_settings:
  assumes "same_settings (config g1) (config g2)"
  shows "GenerateWithSeed R g1 seed now = GenerateWithSeed R g2 seed now"
proof -
  have e: "Size_cfg (config g1) = Size_cfg (config g2)"
    "MineDensity (config g1) = MineDensity (config g2)"
    "MinMineCount (config g1) = MinMineCount (config g2)"
    "MaxMineCount (config g1) = MaxMineCount (config g2)"
    using assms by (simp_all add: same_settings_def)
  have c: "CalculateMineCount (config g1) = CalculateMineCount (config g2)"
    by (simp only: CalculateMineCount_def e)
  show ?thesis
    by (simp only: GenerateWithSeed_def placeMinesWithRNG_def c e)
qed


subsection \<open>The generation returns a well-formed state\<close>

lemma count_true_replicate: "count_true (replicate k (replicate l False)) = 0"
  by (simp add: count_true_def sum_list_replicate)

lemma NewGameState_ok:
  assumes "0 \<le> n"
  shows "\<exists>s. NewGameState n seed now = Some s \<and> wf_state s \<and> mine_count_ok s \<and> Size s = n \<and>
             Seed s = seed \<and> Status s = StatusPlaying"
  using assms
  by (simp add: NewGameState_def wf_state_def mine_count_ok_def count_true_replicate
      list_all_length)

lemma shuffle_loop_Some:
  "rand_in_range R \<Longrightarrow> i < int (length positions) \<Longrightarrow>
     \<exists>p r'. shuffle_loop R i (positions, r) = Some (p, r') \<and> length p = length positions"
proof (induction R i "(positions, r)" arbitrary: positions r rule: shuffle_loop.induct)
  case (1 R i positions r)
  show ?case
  proof (cases "i > 0")
    case False
    then show ?thesis by (simp add: shuffle_loop.simps[of R i])
  next
    case True
    obtain j r' where jr: "Intn R r (i + 1) = (j, r')" by (cases "Intn R r (i + 1)")
    have j: "0 \<le> j" "j < i + 1"
      using "1.prems"(1) True jr unfolding rand_in_range_def
      by (metis add_pos_pos fst_conv zero_less_one)+
    let ?p = "positions[nat i := positions ! nat j, nat j := positions ! nat i]"
    have ok: "i < int (length positions) \<and> 0 \<le> j \<and> j < int (length positions)"
      using j "1.prems"(2) by simp
    have "\<exists>p r''. shuffle_loop R (i - 1) (?p, r') = Some (p, r'') \<and> length p = length ?p"
      using "1.hyps"[OF True jr[symmetric] ok "1.prems"(1)] "1.prems"(2) by simp
    then show ?thesis
      using True jr ok by (simp add: shuffle_loop.simps[of R i])
  qed
qed

lemma SetMine_Seed: "SetMine g x y = Some (b, g') \<Longrightarrow> Seed g' = Seed g"
  by (auto simp: SetMine_def split: if_splits option.splits)

lemma place_loop_Some:
  assumes "n \<noteq> 0" "\<forall>i\<in>set idx. 0 \<le> i \<and> i < int (length positions)"
    and "wf_state s" "mine_count_ok s"
  shows "\<exists>s'. place_loop n positions idx s = Some s' \<and> wf_state s' \<and> mine_count_ok s' \<and>
           Size s' = Size s \<and> Seed s' = Seed s \<and> Status s' = Status s"
  using assms(2,3,4)
proof (induction idx arbitrary: s)
  case Nil
  then show ?case by simp
next
  case (Cons i idx)
  let ?x = "go_quo (positions ! nat i) n" and ?y = "go_rem (positions ! nat i) n"
  obtain b s1 where s1: "SetMine s ?x ?y = Some (b, s1)"
    using SetMine_wf[OF Cons.prems(2)] by blast
  have i: "\<not> (i < 0 \<or> int (length positions) \<le> i \<or> n = 0)"
    using Cons.prems(1) assms(1) by auto
  have idx: "\<forall>i\<in>set idx. 0 \<le> i \<and> i < int (length positions)" using Cons.prems(1) by simp
  from Cons.IH[OF idx SetMine_preserves(7)[OF s1 Cons.prems(2)]
      SetMine_preserves(8)[OF s1 Cons.prems(3)]]
  obtain s' where "place_loop n positions idx s1 = Some s' \<and> wf_state s' \<and> mine_count_ok s' \<and>
           Size s' = Size s1 \<and> Seed s' = Seed s1 \<and> Status s' = Status s1"
    by blast
  then show ?case
    using i s1 SetMine_preserves(1,4)[OF s1] SetMine_Seed[OF s1] by (simp add: Let_def)
qed

lemma mine_count_less_total:
  assumes "Validate c = None"
  shows "CalculateMineCount c < Size_cfg c * Size_cfg c"
  unfolding CalculateMineCount_def valid_total[OF assms] Let_def by auto

lemma GenerateWithSeed_Some:
  assumes "Validate (config g) = None" "rand_in_range R"
  shows "\<exists>state. GenerateWithSeed R g seed now = Some state \<and> wf_state state \<and>
           mine_count_ok state \<and> Size state = Size_cfg (config g) \<and> Seed state = seed \<and>
           Status state = StatusPlaying"
proof -
  let ?n = "Size_cfg (config g)"
  let ?total = "?n * ?n"
  have n: "1 \<le> ?n" and total: "1 \<le> ?total" using valid_size(1,3)[OF assms(1)] by simp_all
  have w: "wrap64 ?total = ?total" using valid_total(1)[OF assms(1)] .
  obtain s0 where s0: "NewGameState ?n seed now = Some s0" "wf_state s0" "mine_count_ok s0"
    "Size s0 = ?n" "Seed s0 = seed" "Status s0 = StatusPlaying"
    using NewGameState_ok[of ?n seed now] n by auto
  have len: "length [0..?total - 1] = nat ?total" by simp
  obtain p r' where p: "shuffle_loop R (?total - 1) ([0..?total - 1], NewSource R seed) = Some (p, r')"
    "length p = nat ?total"
    using shuffle_loop_Some[OF assms(2), of "?total - 1" "[0..?total - 1]" "NewSource R seed"]
      total len by auto
  have idx: "\<forall>i\<in>set [0..CalculateMineCount (config g) - 1]. 0 \<le> i \<and> i < int (length p)"
    using mine_count_less_total[OF assms(1)] p(2) total by auto
  have "?n \<noteq> 0" using n by simp
  from place_loop_Some[OF this idx s0(2,3)]
  obtain s' where s': "place_loop ?n p [0..CalculateMineCount (config g) - 1] s0 = Some s'"
    "wf_state s'" "mine_count_ok s'" "Size s' = Size s0" "Seed s' = Seed s0"
    "Status s' = Status s0"
    by blast
  have "GenerateWithSeed R g seed now = Some s'"
    using s0(1) p(1) s'(1) w total by (simp add: GenerateWithSeed_def placeMinesWithRNG_def)
  then show ?thesis using s' s0 by simp
qed

text \<open>
  Claim C8. Two calls of \<open>GenerateWithSeed\<close> with the same seed, on generators whose configs
  agree on size, density and the two bounds, return the same mine map and the same mine count,
  whatever the state of each generator's own stream, whatever the seed field of each config and
  whatever the clock reads: the call makes its stream from the seed and reads no other. On a
  valid config, with an \<open>Intn\<close> that answers within its range, the call does return a
  well-formed state of the config's size that carries the seed.
\<close>

theorem GenerateWithSeed_reproducible:
  assumes "same_settings (config g1) (config g2)"
  shows "map_option MineMap (GenerateWithSeed R g1 seed now1)
           = map_option MineMap (GenerateWithSeed R g2 seed now2) \<and>
         map_option MineCount (GenerateWithSeed R g1 seed now1)
           = map_option MineCount (GenerateWithSeed R g2 seed now2) \<and>
         (Validate (config g1) = None \<and> rand_in_range R \<longrightarrow>
            (\<exists>state. GenerateWithSeed R g1 seed now1 = Some state \<and> wf_state state \<and>
                mine_count_ok state \<and> Size state = Size_cfg (config g1) \<and> Seed state = seed \<and>
                Status state = StatusPlaying))"
proof -
  have 1: "GenerateWithSeed R g1 seed now1
             = map_option (\<lambda>s. s\<lparr>StartedAt := Some now1\<rparr>) (GenerateWithSeed R g2 seed 0)"
    using GenerateWithSeed_StartedAt[of R g1 seed now1] GenerateWithSeed_settings[OF assms, of R seed 0]
    by simp
  have 2: "GenerateWithSeed R g2 seed now2
             = map_option (\<lambda>s. s\<lparr>StartedAt := Some now2\<rparr>) (GenerateWithSeed R g2 seed 0)"
    by (rule GenerateWithSeed_StartedAt)
  have a: "map_option MineMap (GenerateWithSeed R g1 seed now1)
           = map_option MineMap (GenerateWithSeed R g2 seed now2)"
    unfolding 1 2 by (simp add: option.map_comp comp_def)
  have b: "map_option MineCount (GenerateWithSeed R g1 seed now1)
           = map_option MineCount (GenerateWithSeed R g2 seed now2)"
    unfolding 1 2 by (simp add: option.map_comp comp_def)
  show ?thesis using a b GenerateWithSeed_Some[of g1 R seed now1] by blast
qed

text \<open>A linear congruential generator, to run the code on.\<close>

definition lcg :: "int Rand" where
  "lcg = \<lparr> NewSource = (\<lambda>seed. uint seed),
           Intn = (\<lambda>r n. ((r * 1103515245 + 12345) mod 2147483648 mod n,
                           (r * 1103515245 + 12345) mod 2147483648)) \<rparr>"

definition gen_a :: "int Generator" where
  "gen_a = \<lparr> config = test_config, rng = 17 \<rparr>"

definition gen_b :: "int Generator" where
  "gen_b = \<lparr> config = test_config\<lparr>Seed_cfg := 99\<rparr>, rng = 4711 \<rparr>"



theorem GenerateWithSeed_reproducible_witness:
  "same_settings (config gen_a) (config gen_b) \<and> Validate (config gen_a) = None \<and>
   rand_in_range lcg \<and> rng gen_a \<noteq> rng gen_b \<and>
   Seed_cfg (config gen_a) \<noteq> Seed_cfg (config gen_b) \<and>
   map_option MineMap (GenerateWithSeed lcg gen_a 42 1)
     = Some [[False, True, True], [True, False, True], [False, False, False]] \<and>
   map_option MineMap (GenerateWithSeed lcg gen_b 42 2)
     = Some [[False, True, True], [True, False, True], [False, False, False]] \<and>
   map_option MineCount (GenerateWithSeed lcg gen_b 42 2) = Some 4"
proof -
  have h1: "same_settings (config gen_a) (config gen_b)" by code_simp
  have h2: "Validate (config gen_a) = None" by code_simp
  have h3: "rand_in_range lcg" by (simp add: rand_in_range_def lcg_def)
  have d: "rng gen_a \<noteq> rng gen_b" "Seed_cfg (config gen_a) \<noteq> Seed_cfg (config gen_b)"
    by (simp_all add: gen_a_def gen_b_def test_config_def)
  have a: "map_option MineMap (GenerateWithSeed lcg gen_a 42 1)
     = Some [[False, True, True], [True, False, True], [False, False, False]]"
    by code_simp
  have c: "map_option MineCount (GenerateWithSeed lcg gen_a 42 1) = Some 4"
    by code_simp
  note t = GenerateWithSeed_reproducible[OF h1, of lcg 42 1 2]
  have b: "map_option MineMap (GenerateWithSeed lcg gen_b 42 2)
     = Some [[False, True, True], [True, False, True], [False, False, False]]"
    using a unfolding conjunct1[OF t] .
  have e: "map_option MineCount (GenerateWithSeed lcg gen_b 42 2) = Some 4"
    using c unfolding conjunct1[OF conjunct2[OF t]] .
  show ?thesis by (intro conjI h1 h2 h3 d a b e)
qed

text \<open>
  \<open>Generate\<close>, for contrast, reads the generator's own stream: the second of two calls on one
  generator continues where the first stopped and lays the mines elsewhere.
\<close>

lemma Generate_shares_its_stream:
  "map_option (\<lambda>r. MineMap (fst r)) (Generate lcg gen_a 1)
     = Some [[True, True, True], [False, True, False], [False, False, False]] \<and>
   map_option (\<lambda>r. MineMap (fst r))
       (case Generate lcg gen_a 1 of None \<Rightarrow> None | Some (state, g') \<Rightarrow> Generate lcg g' 1)
     = Some [[False, True, False], [False, True, True], [False, False, True]]"
  by code_simp

section \<open>The grid spawner (package spawner)\<close>

record GridSpawnerConfig =
  Namespace :: string
  CellImage :: string
  BatchSize :: int
  RetryAttempts :: int
  RetryDelay :: int

record GridSpawner =
  namespace :: string
  cellImage :: string
  batchSize :: int
  retryAttempts :: int
  retryDelay :: int

text \<open>
  \<open>SpawnResult\<close>, without the duration. \<open>CreatedPods\<close> and \<open>FailedPods\<close> count elements of
  the slice of coordinates, so they stay within its length and cannot wrap; \<open>TotalPods\<close> is
  the product \<open>Size * Size\<close>, which can.
\<close>

record SpawnResult =
  TotalPods :: int
  CreatedPods :: int
  FailedPods :: int
  FailedCoords :: "Coordinate list"

definition DefaultBatchSize :: int where
  "DefaultBatchSize = 10"

definition DefaultRetryAttempts :: int where
  "DefaultRetryAttempts = 3"

text \<open>\<open>500 * time.Millisecond\<close>, in nanoseconds.\<close>

definition DefaultRetryDelay :: int where
  "DefaultRetryDelay = 500000000"

definition DefaultNamespace :: string where
  "DefaultNamespace = ''podsweeper-game''"

definition NewGridSpawner :: "GridSpawnerConfig \<Rightarrow> GridSpawner" where
  "NewGridSpawner cfg =
     \<lparr> namespace = (if Namespace cfg = [] then DefaultNamespace else Namespace cfg),
       cellImage = (if CellImage cfg = [] then ''busybox:latest'' else CellImage cfg),
       batchSize = (if BatchSize cfg \<le> 0 then DefaultBatchSize else BatchSize cfg),
       retryAttempts = (if RetryAttempts cfg \<le> 0 then DefaultRetryAttempts else RetryAttempts cfg),
       retryDelay = (if RetryDelay cfg \<le> 0 then DefaultRetryDelay else RetryDelay cfg) \<rparr>"

definition buildCellPod :: "GridSpawner \<Rightarrow> Coordinate \<Rightarrow> Pod" where
  "buildCellPod s coord =
     \<lparr> podName = PodName coord, podComponent = ''cell'', podHint = None,
       podTerminating = False \<rparr>"

text \<open>
  \<open>createPodWithRetry\<close>: the loop over \<open>attempt\<close>, with \<open>lastErr\<close>. Before every attempt but
  the first the \<open>select\<close> either finds the context done (\<open>ctxDone\<close> says so) or waits the delay.
\<close>

function retry_loop ::
  "GridSpawner \<Rightarrow> Faults \<Rightarrow> Coordinate \<Rightarrow> int \<Rightarrow> error option \<Rightarrow> Pod list \<Rightarrow>
     error option \<times> Pod list" where
  "retry_loop s f coord attempt lastErr ps =
     (if attempt < retryAttempts s
      then (if attempt > 0 \<and> ctxDone f (PodName coord) attempt then (Some ErrContext, ps)
            else (case client_Create f attempt (buildCellPod s coord) ps of
                    (None, ps') \<Rightarrow> (None, ps')
                  | (Some err, ps') \<Rightarrow>
                      if err = ErrAlreadyExists then (None, ps')
                      else retry_loop s f coord (attempt + 1) (Some err) ps'))
      else (Some (ErrAttempts (retryAttempts s) lastErr), ps))"
  by pat_completeness auto
termination
  by (relation "measure (\<lambda>(s, f, coord, attempt, lastErr, ps). nat (retryAttempts s - attempt))")
    auto

declare retry_loop.simps [simp del]

definition createPodWithRetry ::
  "GridSpawner \<Rightarrow> Faults \<Rightarrow> Coordinate \<Rightarrow> Pod list \<Rightarrow> error option \<times> Pod list" where
  "createPodWithRetry s f coord ps = retry_loop s f coord 0 None ps"

text \<open>The loop \<open>for _, coord := range batch\<close>: a failure is counted and the loop goes on.\<close>

fun spawn_batch ::
  "GridSpawner \<Rightarrow> Faults \<Rightarrow> Coordinate list \<Rightarrow> SpawnResult \<times> Pod list \<Rightarrow>
     SpawnResult \<times> Pod list" where
  "spawn_batch s f [] acc = acc"
| "spawn_batch s f (coord # batch) acc =
     (case createPodWithRetry s f coord (snd acc) of
        (Some err, ps') \<Rightarrow>
          spawn_batch s f batch
            ((fst acc)\<lparr>FailedPods := FailedPods (fst acc) + 1,
                        FailedCoords := FailedCoords (fst acc) @ [coord]\<rparr>, ps')
      | (None, ps') \<Rightarrow>
          spawn_batch s f batch ((fst acc)\<lparr>CreatedPods := CreatedPods (fst acc) + 1\<rparr>, ps'))"

text \<open>
  The loop \<open>for i := 0; i < len(coords); i += s.batchSize\<close>. With a batch size of zero it
  never ends, and with a negative one (or when \<open>i + batchSize\<close> wraps) the slice expression
  \<open>coords[i:end]\<close> panics: both are the value \<open>None\<close>.
\<close>

partial_function (option) batch_loop ::
  "GridSpawner \<Rightarrow> Faults \<Rightarrow> Coordinate list \<Rightarrow> int \<Rightarrow> SpawnResult \<times> Pod list \<Rightarrow>
     (SpawnResult \<times> Pod list) option" where
  "batch_loop s f coords i acc =
     (if i < int (length coords)
      then (let e = wrap64 (i + batchSize s);
                e = (if e > int (length coords) then int (length coords) else e)
            in if i < 0 \<or> e < i then None
               else batch_loop s f coords (wrap64 (i + batchSize s))
                      (spawn_batch s f (take (nat (e - i)) (drop (nat i) coords)) acc))
      else Some acc)"

declare batch_loop.simps [code]

definition all_coords :: "GameState \<Rightarrow> Coordinate list" where
  "all_coords state = map (\<lambda>c. Coordinate (fst c) (snd c)) (grid_indices (Size state))"

text \<open>
  \<open>SpawnGrid\<close> returns the result, the error and the pods after the call. \<open>make\<close> with a
  negative capacity panics.
\<close>

definition SpawnGrid ::
  "GridSpawner \<Rightarrow> Faults \<Rightarrow> GameState \<Rightarrow> Pod list \<Rightarrow>
     (SpawnResult \<times> error option \<times> Pod list) option" where
  "SpawnGrid s f state ps =
     (let total = wrap64 (Size state * Size state)
      in if total < 0 then None
         else (case batch_loop s f (all_coords state) 0
                      (\<lparr>TotalPods = total, CreatedPods = 0, FailedPods = 0, FailedCoords = []\<rparr>, ps) of
                 None \<Rightarrow> None
               | Some (result, ps') \<Rightarrow>
                   Some (result,
                         if FailedPods result > 0 then Some (ErrSpawn (FailedPods result)) else None,
                         ps')))"

subsection \<open>One coordinate\<close>

lemma retry_loop_pods:
  "retry_loop s f c a le ps = (err, ps') \<Longrightarrow>
     podName ` set ps \<subseteq> podName ` set ps' \<and>
     (err = None \<longrightarrow> PodName c \<in> podName ` set ps')"
proof (induction s f c a le ps rule: retry_loop.induct)
  case (1 s f coord attempt lastErr ps)
  show ?case
  proof (cases "attempt < retryAttempts s \<and> \<not> (attempt > 0 \<and> ctxDone f (PodName coord) attempt)")
    case False
    then show ?thesis
      using "1.prems" by (auto simp: retry_loop.simps[of s f coord attempt] split: if_splits)
  next
    case True
    obtain e ps1 where cr: "client_Create f attempt (buildCellPod s coord) ps = (e, ps1)"
      by (cases "client_Create f attempt (buildCellPod s coord) ps")
    have mono: "podName ` set ps \<subseteq> podName ` set ps1"
      using cr by (auto simp: client_Create_def split: if_splits)
    show ?thesis
    proof (cases e)
      case None
      then have "err = None" "ps' = ps1"
        using "1.prems" True cr by (simp_all add: retry_loop.simps[of s f coord attempt])
      moreover have "PodName coord \<in> podName ` set ps1"
        using cr None by (auto simp: client_Create_def buildCellPod_def split: if_splits)
      ultimately show ?thesis using mono by simp
    next
      case (Some er)
      show ?thesis
      proof (cases "er = ErrAlreadyExists")
        case True
        then have "err = None" "ps' = ps1"
          using "1.prems" \<open>attempt < retryAttempts s \<and> _\<close> cr Some
          by (simp_all add: retry_loop.simps[of s f coord attempt])
        moreover have "PodName coord \<in> podName ` set ps1"
          using cr Some True by (auto simp: client_Create_def buildCellPod_def split: if_splits)
        ultimately show ?thesis using mono by simp
      next
        case False
        have rec: "retry_loop s f coord (attempt + 1) (Some er) ps1 = (err, ps')"
          using "1.prems" True cr Some False
          by (simp add: retry_loop.simps[of s f coord attempt])
        have a: "attempt < retryAttempts s" using True by simp
        have b: "\<not> (0 < attempt \<and> ctxDone f (PodName coord) attempt)" using True by simp
        from "1.IH"[OF a b cr[symmetric] Some False rec]
        show ?thesis using mono by auto
      qed
    qed
  qed
qed

lemma already_exists_is_success:
  assumes "0 < retryAttempts s" "\<not> createFails f (PodName c) 0" "PodName c \<in> set (map podName ps)"
  shows "createPodWithRetry s f c ps = (None, ps)"
  using assms
  by (simp add: createPodWithRetry_def retry_loop.simps[of s f c 0] client_Create_def
      buildCellPod_def)

subsection \<open>All coordinates\<close>

lemma spawn_batch_append:
  "spawn_batch s f (xs @ ys) acc = spawn_batch s f ys (spawn_batch s f xs acc)"
  by (induction xs arbitrary: acc) (auto split: prod.splits option.splits)

lemma spawn_batch_result:
  "spawn_batch s f cs (r, ps) = (r', ps') \<Longrightarrow>
     TotalPods r' = TotalPods r \<and> podName ` set ps \<subseteq> podName ` set ps' \<and>
     (\<exists>failed. FailedCoords r' = FailedCoords r @ failed \<and> set failed \<subseteq> set cs \<and>
        length failed \<le> length cs \<and>
        FailedPods r' = FailedPods r + int (length failed) \<and>
        CreatedPods r' = CreatedPods r + int (length cs) - int (length failed) \<and>
        (\<forall>c\<in>set cs. c \<notin> set failed \<longrightarrow> PodName c \<in> podName ` set ps'))"
proof (induction cs arbitrary: r ps)
  case Nil
  then show ?case by simp
next
  case (Cons c cs)
  obtain e ps1 where cr: "createPodWithRetry s f c ps = (e, ps1)"
    by (cases "createPodWithRetry s f c ps")
  have pods1: "podName ` set ps \<subseteq> podName ` set ps1"
    "e = None \<longrightarrow> PodName c \<in> podName ` set ps1"
    using retry_loop_pods[of s f c 0 None ps e ps1] cr by (simp_all add: createPodWithRetry_def)
  show ?case
  proof (cases e)
    case None
    let ?r1 = "r\<lparr>CreatedPods := CreatedPods r + 1\<rparr>"
    have rec: "spawn_batch s f cs (?r1, ps1) = (r', ps')"
      using Cons.prems cr None by simp
    from Cons.IH[OF rec] obtain failed where ih:
      "TotalPods r' = TotalPods ?r1" "podName ` set ps1 \<subseteq> podName ` set ps'"
      "FailedCoords r' = FailedCoords ?r1 @ failed" "set failed \<subseteq> set cs"
      "length failed \<le> length cs"
      "FailedPods r' = FailedPods ?r1 + int (length failed)"
      "CreatedPods r' = CreatedPods ?r1 + int (length cs) - int (length failed)"
      "\<forall>c\<in>set cs. c \<notin> set failed \<longrightarrow> PodName c \<in> podName ` set ps'"
      by blast
    have c: "PodName c \<in> podName ` set ps'" using pods1(2) None ih(2) by blast
    show ?thesis
    proof (intro conjI exI[of _ failed])
      show "TotalPods r' = TotalPods r" using ih(1) by simp
      show "podName ` set ps \<subseteq> podName ` set ps'" using pods1(1) ih(2) by blast
      show "FailedCoords r' = FailedCoords r @ failed" using ih(3) by simp
      show "set failed \<subseteq> set (c # cs)" using ih(4) by auto
      show "length failed \<le> length (c # cs)" using ih(5) by simp
      show "FailedPods r' = FailedPods r + int (length failed)" using ih(6) by simp
      show "CreatedPods r' = CreatedPods r + int (length (c # cs)) - int (length failed)"
        using ih(7) by simp
      show "\<forall>d\<in>set (c # cs). d \<notin> set failed \<longrightarrow> PodName d \<in> podName ` set ps'"
        using ih(8) c by simp
    qed
  next
    case (Some er)
    let ?r1 = "r\<lparr>FailedPods := FailedPods r + 1, FailedCoords := FailedCoords r @ [c]\<rparr>"
    have rec: "spawn_batch s f cs (?r1, ps1) = (r', ps')"
      using Cons.prems cr Some by simp
    from Cons.IH[OF rec] obtain failed where ih:
      "TotalPods r' = TotalPods ?r1" "podName ` set ps1 \<subseteq> podName ` set ps'"
      "FailedCoords r' = FailedCoords ?r1 @ failed" "set failed \<subseteq> set cs"
      "length failed \<le> length cs"
      "FailedPods r' = FailedPods ?r1 + int (length failed)"
      "CreatedPods r' = CreatedPods ?r1 + int (length cs) - int (length failed)"
      "\<forall>c\<in>set cs. c \<notin> set failed \<longrightarrow> PodName c \<in> podName ` set ps'"
      by blast
    show ?thesis
    proof (intro conjI exI[of _ "c # failed"])
      show "TotalPods r' = TotalPods r" using ih(1) by simp
      show "podName ` set ps \<subseteq> podName ` set ps'" using pods1(1) ih(2) by blast
      show "FailedCoords r' = FailedCoords r @ c # failed" using ih(3) by simp
      show "set (c # failed) \<subseteq> set (c # cs)" using ih(4) by auto
      show "length (c # failed) \<le> length (c # cs)" using ih(5) by simp
      show "FailedPods r' = FailedPods r + int (length (c # failed))" using ih(6) by simp
      show "CreatedPods r' = CreatedPods r + int (length (c # cs)) - int (length (c # failed))"
        using ih(7) by simp
      show "\<forall>d\<in>set (c # cs). d \<notin> set (c # failed) \<longrightarrow> PodName d \<in> podName ` set ps'"
        using ih(8) by simp
    qed
  qed
qed

lemma batch_loop_flat:
  assumes "0 < batchSize s" "int (length coords) + batchSize s < 2 ^ 63"
  shows "0 \<le> i \<Longrightarrow> i \<le> int (length coords) \<Longrightarrow>
     batch_loop s f coords i acc = Some (spawn_batch s f (drop (nat i) coords) acc)"
proof (induction "length coords - nat i" arbitrary: i acc rule: less_induct)
  case less
  show ?case
  proof (cases "i < int (length coords)")
    case False
    then have "nat i \<ge> length coords" using less.prems by simp
    then show ?thesis using False by (simp add: batch_loop.simps[of s f coords i])
  next
    case True
    let ?n = "i + batchSize s"
    have w: "wrap64 ?n = ?n" using assms less.prems by (simp add: wrap64_id)
    show ?thesis
    proof (cases "?n \<le> int (length coords)")
      case le: True
      let ?batch = "take (nat (?n - i)) (drop (nat i) coords)"
      have step: "batch_loop s f coords i acc
                    = batch_loop s f coords ?n (spawn_batch s f ?batch acc)"
        using True le assms(1) less.prems w
        by (simp add: batch_loop.simps[of s f coords i] Let_def)
      have smaller: "length coords - nat ?n < length coords - nat i"
        using True assms(1) less.prems by auto
      have n0: "0 \<le> ?n" using assms(1) less.prems by simp
      have "nat (?n - i) + nat i = nat ?n" using less.prems assms(1) by simp
      then have dd: "drop (nat (?n - i)) (drop (nat i) coords) = drop (nat ?n) coords"
        by (simp only: drop_drop)
      have "drop (nat i) coords = ?batch @ drop (nat (?n - i)) (drop (nat i) coords)"
        by (rule append_take_drop_id[symmetric])
      then have "drop (nat i) coords = ?batch @ drop (nat ?n) coords"
        by (simp only: dd)
      then have "spawn_batch s f (drop (nat i) coords) acc
                   = spawn_batch s f (drop (nat ?n) coords) (spawn_batch s f ?batch acc)"
        by (metis spawn_batch_append)
      then show ?thesis
        using step less.hyps[OF smaller n0 le] by simp
    next
      case gt: False
      let ?batch = "take (nat (int (length coords) - i)) (drop (nat i) coords)"
      have b: "?batch = drop (nat i) coords" using less.prems by simp
      have step: "batch_loop s f coords i acc
                    = batch_loop s f coords ?n (spawn_batch s f ?batch acc)"
        using True gt assms(1) less.prems w
        by (simp add: batch_loop.simps[of s f coords i] Let_def)
      have "batch_loop s f coords ?n (spawn_batch s f ?batch acc)
              = Some (spawn_batch s f ?batch acc)"
        using gt by (simp add: batch_loop.simps[of s f coords ?n])
      then show ?thesis using step b by simp
    qed
  qed
qed

lemma length_grid_indices: "length (grid_indices n) = nat n * nat n"
  by (simp add: grid_indices_def length_concat comp_def sum_list_triv)

lemma length_all_coords: "wf_state state \<Longrightarrow> int (length (all_coords state)) = Size state * Size state"
proof -
  assume "wf_state state"
  then have "0 \<le> Size state" by (auto simp: wf_state_def)
  then show ?thesis
    by (simp add: all_coords_def length_grid_indices nat_mult_distrib[symmetric])
qed


subsection \<open>Which coordinates fail for good\<close>

text \<open>
  An attempt of \<open>createPodWithRetry\<close> fails exactly when the client's \<open>Create\<close> fails for a
  reason other than "already exists", that is, when \<open>createFails\<close> says so. The coordinate fails
  for good when every one of the \<open>retryAttempts\<close> attempts fails, or when the context is found
  done before some attempt after the first, every attempt before that one having failed.
\<close>

definition permanently_failed :: "GridSpawner \<Rightarrow> Faults \<Rightarrow> Coordinate \<Rightarrow> bool" where
  "permanently_failed s f c \<longleftrightarrow>
     list_all (\<lambda>j. createFails f (PodName c) j) [0..retryAttempts s - 1] \<or>
     list_ex (\<lambda>k. ctxDone f (PodName c) k \<and>
                   list_all (\<lambda>j. createFails f (PodName c) j) [0..k - 1])
       [1..retryAttempts s - 1]"

lemma permanently_failed_iff:
  "permanently_failed s f c \<longleftrightarrow>
     (\<forall>j. 0 \<le> j \<and> j < retryAttempts s \<longrightarrow> createFails f (PodName c) j) \<or>
     (\<exists>k. 0 < k \<and> k < retryAttempts s \<and> ctxDone f (PodName c) k \<and>
          (\<forall>j. 0 \<le> j \<and> j < k \<longrightarrow> createFails f (PodName c) j))"
proof -
  have 1: "list_all (\<lambda>j. createFails f (PodName c) j) [0..n - 1]
             \<longleftrightarrow> (\<forall>j. 0 \<le> j \<and> j < n \<longrightarrow> createFails f (PodName c) j)" for n
    by (auto simp: list_all_iff)
  have 2: "list_ex P [1..n - 1] \<longleftrightarrow> (\<exists>k. 0 < k \<and> k < n \<and> P k)" for P n
    by (auto simp: list_ex_iff) force
  show ?thesis unfolding permanently_failed_def 1 2 ..
qed

lemma client_Create_fails:
  "fst (client_Create f a pod ps) \<noteq> None \<and> fst (client_Create f a pod ps) \<noteq> Some ErrAlreadyExists
     \<longleftrightarrow> createFails f (podName pod) a"
  by (simp add: client_Create_def)

lemma retry_loop_fails_iff:
  "0 \<le> a \<Longrightarrow>
   fst (retry_loop s f c a le ps) \<noteq> None \<longleftrightarrow>
     (\<forall>j. a \<le> j \<and> j < retryAttempts s \<longrightarrow> createFails f (PodName c) j) \<or>
     (\<exists>k. a \<le> k \<and> 0 < k \<and> k < retryAttempts s \<and> ctxDone f (PodName c) k \<and>
          (\<forall>j. a \<le> j \<and> j < k \<longrightarrow> createFails f (PodName c) j))"
proof (induction s f c a le ps rule: retry_loop.induct)
  case (1 s f coord attempt lastErr ps)
  let ?cF = "\<lambda>j. createFails f (PodName coord) j"
  let ?cD = "\<lambda>j. ctxDone f (PodName coord) j"
  let ?R = "\<lambda>a. (\<forall>j. a \<le> j \<and> j < retryAttempts s \<longrightarrow> ?cF j) \<or>
     (\<exists>k. a \<le> k \<and> 0 < k \<and> k < retryAttempts s \<and> ?cD k \<and> (\<forall>j. a \<le> j \<and> j < k \<longrightarrow> ?cF j))"
  show ?case
  proof (cases "attempt < retryAttempts s")
    case False
    then have "fst (retry_loop s f coord attempt lastErr ps) \<noteq> None"
      by (simp add: retry_loop.simps[of s f coord attempt])
    moreover have "?R attempt" using False by auto
    ultimately show ?thesis by blast
  next
    case lt: True
    show ?thesis
    proof (cases "attempt > 0 \<and> ?cD attempt")
      case True
      then have "fst (retry_loop s f coord attempt lastErr ps) \<noteq> None"
        using lt by (simp add: retry_loop.simps[of s f coord attempt])
      moreover have "?R attempt" using True lt by (intro disjI2 exI[of _ attempt]) auto
      ultimately show ?thesis by blast
    next
      case nd: False
      show ?thesis
      proof (cases "?cF attempt")
        case False
        then have "fst (retry_loop s f coord attempt lastErr ps) = None"
          using lt nd
          by (auto simp: retry_loop.simps[of s f coord attempt] client_Create_def buildCellPod_def)
        moreover have "\<not> ?R attempt"
        proof
          assume "?R attempt"
          then show False
          proof
            assume "\<forall>j. attempt \<le> j \<and> j < retryAttempts s \<longrightarrow> ?cF j"
            then show False using False lt by auto
          next
            assume "\<exists>k. attempt \<le> k \<and> 0 < k \<and> k < retryAttempts s \<and> ?cD k \<and>
                      (\<forall>j. attempt \<le> j \<and> j < k \<longrightarrow> ?cF j)"
            then obtain k where k: "attempt \<le> k" "0 < k" "?cD k"
              "\<forall>j. attempt \<le> j \<and> j < k \<longrightarrow> ?cF j" by blast
            show False
            proof (cases "k = attempt")
              case True
              then show False using k nd by simp
            next
              case False
              then have "attempt < k" using k(1) by simp
              then show False using k(4) \<open>\<not> ?cF attempt\<close> by auto
            qed
          qed
        qed
        ultimately show ?thesis by blast
      next
        case True
        have cr: "client_Create f attempt (buildCellPod s coord) ps = (Some ErrClient, ps)"
          using True by (simp add: client_Create_def buildCellPod_def)
        have step: "retry_loop s f coord attempt lastErr ps
                      = retry_loop s f coord (attempt + 1) (Some ErrClient) ps"
          using lt nd cr by (auto simp: retry_loop.simps[of s f coord attempt])
        have a1: "0 \<le> attempt + 1" using "1.prems" by simp
        have ih: "fst (retry_loop s f coord (attempt + 1) (Some ErrClient) ps) \<noteq> None
                    \<longleftrightarrow> ?R (attempt + 1)"
          using "1.IH"[OF lt nd cr[symmetric] _ _ a1] by simp
        have "?R attempt \<longleftrightarrow> ?R (attempt + 1)"
        proof
          assume "?R attempt"
          then show "?R (attempt + 1)"
          proof
            assume "\<forall>j. attempt \<le> j \<and> j < retryAttempts s \<longrightarrow> ?cF j"
            then show ?thesis by auto
          next
            assume "\<exists>k. attempt \<le> k \<and> 0 < k \<and> k < retryAttempts s \<and> ?cD k \<and>
                      (\<forall>j. attempt \<le> j \<and> j < k \<longrightarrow> ?cF j)"
            then obtain k where k: "attempt \<le> k" "0 < k" "k < retryAttempts s" "?cD k"
              "\<forall>j. attempt \<le> j \<and> j < k \<longrightarrow> ?cF j" by blast
            have "k \<noteq> attempt" using k(2,4) nd by auto
            then have "attempt + 1 \<le> k" using k(1) by simp
            then show ?thesis using k by (intro disjI2 exI[of _ k]) auto
          qed
        next
          assume "?R (attempt + 1)"
          then show "?R attempt"
          proof
            assume a: "\<forall>j. attempt + 1 \<le> j \<and> j < retryAttempts s \<longrightarrow> ?cF j"
            have "\<forall>j. attempt \<le> j \<and> j < retryAttempts s \<longrightarrow> ?cF j"
            proof (intro allI impI)
              fix j assume j: "attempt \<le> j \<and> j < retryAttempts s"
              show "?cF j"
              proof (cases "j = attempt")
                case True then show ?thesis using \<open>?cF attempt\<close> by simp
              next
                case False then show ?thesis using a j by simp
              qed
            qed
            then show ?thesis by blast
          next
            assume "\<exists>k. attempt + 1 \<le> k \<and> 0 < k \<and> k < retryAttempts s \<and> ?cD k \<and>
                      (\<forall>j. attempt + 1 \<le> j \<and> j < k \<longrightarrow> ?cF j)"
            then obtain k where k: "attempt + 1 \<le> k" "0 < k" "k < retryAttempts s" "?cD k"
              "\<forall>j. attempt + 1 \<le> j \<and> j < k \<longrightarrow> ?cF j" by blast
            have "\<forall>j. attempt \<le> j \<and> j < k \<longrightarrow> ?cF j"
            proof (intro allI impI)
              fix j assume j: "attempt \<le> j \<and> j < k"
              show "?cF j"
              proof (cases "j = attempt")
                case True then show ?thesis using \<open>?cF attempt\<close> by simp
              next
                case False then show ?thesis using k(5) j by simp
              qed
            qed
            then show ?thesis using k by (intro disjI2 exI[of _ k]) auto
          qed
        qed
        then show ?thesis using step ih by simp
      qed
    qed
  qed
qed

lemma retry_loop_fail_pods:
  "fst (retry_loop s f c a le ps) \<noteq> None \<Longrightarrow> snd (retry_loop s f c a le ps) = ps"
proof (induction s f c a le ps rule: retry_loop.induct)
  case (1 s f coord attempt lastErr ps)
  show ?case
  proof (cases "attempt < retryAttempts s \<and> \<not> (attempt > 0 \<and> ctxDone f (PodName coord) attempt)")
    case False
    then show ?thesis
      by (auto simp: retry_loop.simps[of s f coord attempt])
  next
    case True
    show ?thesis
    proof (cases "createFails f (PodName coord) attempt")
      case False
      then have "fst (retry_loop s f coord attempt lastErr ps) = None"
        using True
        by (auto simp: retry_loop.simps[of s f coord attempt] client_Create_def buildCellPod_def)
      then show ?thesis using "1.prems" by simp
    next
      case cf: True
      have cr: "client_Create f attempt (buildCellPod s coord) ps = (Some ErrClient, ps)"
        using cf by (simp add: client_Create_def buildCellPod_def)
      have step: "retry_loop s f coord attempt lastErr ps
                    = retry_loop s f coord (attempt + 1) (Some ErrClient) ps"
        using True cr by (auto simp: retry_loop.simps[of s f coord attempt])
      have a: "attempt < retryAttempts s" using True by simp
      have b: "\<not> (0 < attempt \<and> ctxDone f (PodName coord) attempt)" using True by simp
      show ?thesis
        using "1.IH"[OF a b cr[symmetric]] "1.prems" unfolding step by simp
    qed
  qed
qed

lemma createPodWithRetry_fails_iff:
  "fst (createPodWithRetry s f c ps) \<noteq> None \<longleftrightarrow> permanently_failed s f c"
proof -
  let ?cF = "\<lambda>j. createFails f (PodName c) j"
  let ?cD = "\<lambda>j. ctxDone f (PodName c) j"
  have "fst (retry_loop s f c 0 None ps) \<noteq> None \<longleftrightarrow>
     (\<forall>j. 0 \<le> j \<and> j < retryAttempts s \<longrightarrow> ?cF j) \<or>
     (\<exists>k. 0 \<le> k \<and> 0 < k \<and> k < retryAttempts s \<and> ?cD k \<and>
          (\<forall>j. 0 \<le> j \<and> j < k \<longrightarrow> ?cF j))"
    by (rule retry_loop_fails_iff) simp
  moreover have "(\<exists>k. 0 \<le> k \<and> 0 < k \<and> k < retryAttempts s \<and> ?cD k \<and>
          (\<forall>j. 0 \<le> j \<and> j < k \<longrightarrow> ?cF j))
      \<longleftrightarrow> (\<exists>k. 0 < k \<and> k < retryAttempts s \<and> ?cD k \<and>
          (\<forall>j. 0 \<le> j \<and> j < k \<longrightarrow> ?cF j))"
    by (rule iffI; elim exE conjE; rule exI; intro conjI; (assumption | simp))
  ultimately show ?thesis
    unfolding createPodWithRetry_def permanently_failed_iff by simp
qed


lemma createPodWithRetry_fail_pods:
  "fst (createPodWithRetry s f c ps) \<noteq> None \<Longrightarrow> snd (createPodWithRetry s f c ps) = ps"
  unfolding createPodWithRetry_def by (rule retry_loop_fail_pods)

lemma createPodWithRetry_success_pods:
  "fst (createPodWithRetry s f c ps) = None \<Longrightarrow>
     PodName c \<in> set (map podName (snd (createPodWithRetry s f c ps)))"
proof -
  assume "fst (createPodWithRetry s f c ps) = None"
  then have "retry_loop s f c 0 None ps = (None, snd (retry_loop s f c 0 None ps))"
    unfolding createPodWithRetry_def by (metis prod.collapse)
  from retry_loop_pods[OF this] show ?thesis by (simp add: createPodWithRetry_def)
qed

lemma spawn_batch_failed:
  "FailedCoords (fst (spawn_batch s f cs acc))
     = FailedCoords (fst acc) @ filter (permanently_failed s f) cs"
proof (induction cs arbitrary: acc)
  case Nil
  then show ?case by simp
next
  case (Cons c cs)
  obtain e ps1 where cr: "createPodWithRetry s f c (snd acc) = (e, ps1)"
    by (cases "createPodWithRetry s f c (snd acc)")
  have pf: "permanently_failed s f c \<longleftrightarrow> e \<noteq> None"
    using createPodWithRetry_fails_iff[of s f c "snd acc"] cr by simp
  show ?case
  proof (cases e)
    case None
    then show ?thesis using cr pf Cons.IH by simp
  next
    case (Some er)
    then show ?thesis using cr pf Cons.IH by simp
  qed
qed

text \<open>
  Claim C9. For a spawner made by \<open>NewGridSpawner\<close> and a well-formed state (whose cell count
  plus the batch size fits an \<open>int\<close>), \<open>SpawnGrid\<close> returns, and its result is that of
  \<open>createPodWithRetry\<close> run on every one of the \<open>Size * Size\<close> coordinates in order, a failure
  being counted and the run going on: the batches only cut this run into pieces. The result
  has \<open>TotalPods = Size * Size\<close> and \<open>CreatedPods + FailedPods = TotalPods\<close>, \<open>FailedPods\<close> is the
  number of failed coordinates listed, the error is set exactly when \<open>FailedPods > 0\<close>, and the
  pod of every coordinate not listed as failed exists afterwards. A creation answered
  "already exists" is a success. The retry is per coordinate: a creation that fails is tried
  again, up to \<open>retryAttempts\<close> attempts in all (the configured number, or 3), and the
  coordinate succeeds as soon as one attempt does. The coordinates listed as failed are exactly
  those that failed for good: every attempt failed, or the context was found done before a
  later attempt after every earlier attempt had failed; a failed coordinate leaves the pods as
  they were.
\<close>

theorem SpawnGrid_best_effort:
  assumes "wf_state state"
    and "Size state * Size state + batchSize (NewGridSpawner cfg) < 2 ^ 63"
  shows "\<exists>result err ps'.
     SpawnGrid (NewGridSpawner cfg) f state ps = Some (result, err, ps') \<and>
     (result, ps') = spawn_batch (NewGridSpawner cfg) f (all_coords state)
                       (\<lparr>TotalPods = Size state * Size state, CreatedPods = 0, FailedPods = 0,
                         FailedCoords = []\<rparr>, ps) \<and>
     int (length (all_coords state)) = Size state * Size state \<and>
     TotalPods result = Size state * Size state \<and>
     CreatedPods result + FailedPods result = TotalPods result \<and>
     0 \<le> CreatedPods result \<and>
     FailedPods result = int (length (FailedCoords result)) \<and>
     set (FailedCoords result) \<subseteq> set (all_coords state) \<and>
     (err \<noteq> None \<longleftrightarrow> FailedPods result > 0) \<and>
     (\<forall>c\<in>set (all_coords state).
         c \<notin> set (FailedCoords result) \<longrightarrow> PodName c \<in> set (map podName ps')) \<and>
     (\<forall>c ps0. \<not> createFails f (PodName c) 0 \<and> PodName c \<in> set (map podName ps0) \<longrightarrow>
         createPodWithRetry (NewGridSpawner cfg) f c ps0 = (None, ps0)) \<and>
     FailedCoords result = filter (permanently_failed (NewGridSpawner cfg) f) (all_coords state) \<and>
     retryAttempts (NewGridSpawner cfg)
       = (if RetryAttempts cfg \<le> 0 then DefaultRetryAttempts else RetryAttempts cfg) \<and>
     (\<forall>c ps0. fst (createPodWithRetry (NewGridSpawner cfg) f c ps0) \<noteq> None \<longleftrightarrow>
         (\<forall>j. 0 \<le> j \<and> j < retryAttempts (NewGridSpawner cfg) \<longrightarrow> createFails f (PodName c) j) \<or>
         (\<exists>k. 0 < k \<and> k < retryAttempts (NewGridSpawner cfg) \<and> ctxDone f (PodName c) k \<and>
              (\<forall>j. 0 \<le> j \<and> j < k \<longrightarrow> createFails f (PodName c) j))) \<and>
     (\<forall>c ps0. fst (createPodWithRetry (NewGridSpawner cfg) f c ps0) \<noteq> None \<longrightarrow>
         snd (createPodWithRetry (NewGridSpawner cfg) f c ps0) = ps0) \<and>
     (\<forall>c ps0 k. 0 \<le> k \<and> k < retryAttempts (NewGridSpawner cfg) \<and>
         (\<forall>j. 0 \<le> j \<and> j < k \<longrightarrow> createFails f (PodName c) j) \<and>
         (\<forall>j. 0 < j \<and> j \<le> k \<longrightarrow> \<not> ctxDone f (PodName c) j) \<and>
         \<not> createFails f (PodName c) k \<longrightarrow>
         fst (createPodWithRetry (NewGridSpawner cfg) f c ps0) = None \<and>
         PodName c \<in> set (map podName (snd (createPodWithRetry (NewGridSpawner cfg) f c ps0))))"
proof -
  let ?s = "NewGridSpawner cfg"
  let ?total = "Size state * Size state"
  let ?init = "\<lparr>TotalPods = ?total, CreatedPods = 0, FailedPods = 0, FailedCoords = []\<rparr>"
  have bs: "0 < batchSize ?s" and ra: "0 < retryAttempts ?s"
    by (simp_all add: NewGridSpawner_def DefaultBatchSize_def DefaultRetryAttempts_def)
  have len: "int (length (all_coords state)) = ?total" using length_all_coords[OF assms(1)] .
  have t0: "0 \<le> ?total" by simp
  have "- (2 ^ 63) \<le> ?total" "?total < 2 ^ 63" using t0 assms(2) bs by linarith+
  then have w: "wrap64 ?total = ?total" by (rule wrap64_id)
  obtain result ps' where sb: "spawn_batch ?s f (all_coords state) (?init, ps) = (result, ps')"
    by (cases "spawn_batch ?s f (all_coords state) (?init, ps)")
  have flat: "batch_loop ?s f (all_coords state) 0 (?init, ps) = Some (result, ps')"
    using batch_loop_flat[OF bs, of "all_coords state" 0 f "(?init, ps)"] assms(2) len sb by simp
  let ?err = "if FailedPods result > 0 then Some (ErrSpawn (FailedPods result)) else None"
  have run: "SpawnGrid ?s f state ps = Some (result, ?err, ps')"
    using flat w t0 by (simp add: SpawnGrid_def)
  from spawn_batch_result[OF sb] obtain failed where r:
    "TotalPods result = ?total" "FailedCoords result = failed" "set failed \<subseteq> set (all_coords state)"
    "length failed \<le> length (all_coords state)"
    "FailedPods result = int (length failed)"
    "CreatedPods result = int (length (all_coords state)) - int (length failed)"
    "\<forall>c\<in>set (all_coords state). c \<notin> set failed \<longrightarrow> PodName c \<in> podName ` set ps'"
    by auto
  have 1: "CreatedPods result + FailedPods result = TotalPods result" using r(1,5,6) len by simp
  have 2: "0 \<le> CreatedPods result" using r(4,6) by simp
  have 3: "FailedPods result = int (length (FailedCoords result))" using r(2,5) by simp
  have 4: "set (FailedCoords result) \<subseteq> set (all_coords state)" using r(2,3) by simp
  have 5: "?err \<noteq> None \<longleftrightarrow> FailedPods result > 0" by simp
  have 6: "\<forall>c\<in>set (all_coords state).
         c \<notin> set (FailedCoords result) \<longrightarrow> PodName c \<in> set (map podName ps')"
    using r(2,7) by simp
  have 7: "\<forall>c ps0. \<not> createFails f (PodName c) 0 \<and> PodName c \<in> set (map podName ps0) \<longrightarrow>
         createPodWithRetry ?s f c ps0 = (None, ps0)"
    using already_exists_is_success[OF ra] by blast
  have 8: "FailedCoords result = filter (permanently_failed ?s f) (all_coords state)"
    using spawn_batch_failed[of ?s f "all_coords state" "(?init, ps)"] sb by simp
  have 9: "retryAttempts ?s = (if RetryAttempts cfg \<le> 0 then DefaultRetryAttempts else RetryAttempts cfg)"
    by (simp add: NewGridSpawner_def)
  have 10: "\<forall>c ps0. fst (createPodWithRetry ?s f c ps0) \<noteq> None \<longleftrightarrow>
         (\<forall>j. 0 \<le> j \<and> j < retryAttempts ?s \<longrightarrow> createFails f (PodName c) j) \<or>
         (\<exists>k. 0 < k \<and> k < retryAttempts ?s \<and> ctxDone f (PodName c) k \<and>
              (\<forall>j. 0 \<le> j \<and> j < k \<longrightarrow> createFails f (PodName c) j))"
    using createPodWithRetry_fails_iff[of ?s f] permanently_failed_iff[of ?s f] by blast
  have 11: "\<forall>c ps0. fst (createPodWithRetry ?s f c ps0) \<noteq> None \<longrightarrow>
         snd (createPodWithRetry ?s f c ps0) = ps0"
    using createPodWithRetry_fail_pods by blast
  have 12: "\<forall>c ps0 k. 0 \<le> k \<and> k < retryAttempts ?s \<and>
         (\<forall>j. 0 \<le> j \<and> j < k \<longrightarrow> createFails f (PodName c) j) \<and>
         (\<forall>j. 0 < j \<and> j \<le> k \<longrightarrow> \<not> ctxDone f (PodName c) j) \<and>
         \<not> createFails f (PodName c) k \<longrightarrow>
         fst (createPodWithRetry ?s f c ps0) = None \<and>
         PodName c \<in> set (map podName (snd (createPodWithRetry ?s f c ps0)))"
  proof (intro allI impI)
    fix c ps0 k
    assume a: "0 \<le> k \<and> k < retryAttempts ?s \<and>
         (\<forall>j. 0 \<le> j \<and> j < k \<longrightarrow> createFails f (PodName c) j) \<and>
         (\<forall>j. 0 < j \<and> j \<le> k \<longrightarrow> \<not> ctxDone f (PodName c) j) \<and>
         \<not> createFails f (PodName c) k"
    have "fst (createPodWithRetry ?s f c ps0) = None"
    proof (rule ccontr)
      assume "fst (createPodWithRetry ?s f c ps0) \<noteq> None"
      then consider
        (all) "\<forall>j. 0 \<le> j \<and> j < retryAttempts ?s \<longrightarrow> createFails f (PodName c) j"
        | (ctx) k' where "0 < k'" "k' < retryAttempts ?s" "ctxDone f (PodName c) k'"
            "\<forall>j. 0 \<le> j \<and> j < k' \<longrightarrow> createFails f (PodName c) j"
        using 10 by blast
      then show False
      proof cases
        case all
        then show False using a by blast
      next
        case ctx
        show False
        proof (cases "k' \<le> k")
          case True
          then show False using a ctx(1,3) by blast
        next
          case False
          then have "k < k'" by simp
          then show False using a ctx(4) by blast
        qed
      qed
    qed
    then show "fst (createPodWithRetry ?s f c ps0) = None \<and>
         PodName c \<in> set (map podName (snd (createPodWithRetry ?s f c ps0)))"
      using createPodWithRetry_success_pods by blast
  qed
  show ?thesis
    by (intro exI[of _ result] exI[of _ ?err] exI[of _ ps'] conjI run sb[symmetric] len r(1)
        1 2 3 4 5 6 7 8 9 10 11 12)
qed

definition spawner5 :: GridSpawner where
  "spawner5 = NewGridSpawner \<lparr> Namespace = [], CellImage = [], BatchSize = 5, RetryAttempts = 0,
                               RetryDelay = 0 \<rparr>"

definition faults_retry :: Faults where
  "faults_retry =
     no_faults\<lparr>createFails := (\<lambda>name attempt. name = ''pod-1-1'' \<and> attempt = 0 \<or>
                                              name = ''pod-0-2'' \<or>
                                              name = ''pod-2-0'' \<and> attempt = 0),
               ctxDone := (\<lambda>name attempt. name = ''pod-2-0'' \<and> attempt = 1)\<rparr>"

theorem SpawnGrid_best_effort_witness:
  "wf_state grid3 \<and> Size grid3 * Size grid3 + batchSize spawner5 < 2 ^ 63 \<and>
   retryAttempts spawner5 = 3 \<and>
   map_option (\<lambda>r. (fst r, fst (snd r), map podName (snd (snd r))))
       (SpawnGrid spawner5 faults_retry grid3 [])
     = Some (\<lparr>TotalPods = 9, CreatedPods = 7, FailedPods = 2,
               FailedCoords = [Coordinate 0 2, Coordinate 2 0]\<rparr>,
             Some (ErrSpawn 2),
             [''pod-0-0'', ''pod-0-1'', ''pod-1-0'', ''pod-1-1'', ''pod-1-2'', ''pod-2-1'',
              ''pod-2-2'']) \<and>
   fst (client_Create faults_retry 0 (buildCellPod spawner5 (Coordinate 1 1)) []) = Some ErrClient \<and>
   map_prod id (map podName) (createPodWithRetry spawner5 faults_retry (Coordinate 1 1) [])
     = (None, [''pod-1-1'']) \<and>
   createPodWithRetry spawner5 faults_retry (Coordinate 0 2) []
     = (Some (ErrAttempts 3 (Some ErrClient)), []) \<and>
   createPodWithRetry spawner5 faults_retry (Coordinate 2 0) [] = (Some ErrContext, []) \<and>
   filter (permanently_failed spawner5 faults_retry) (all_coords grid3)
     = [Coordinate 0 2, Coordinate 2 0] \<and>
   (\<exists>result err ps'. SpawnGrid spawner5 faults_retry grid3 [] = Some (result, err, ps') \<and>
       CreatedPods result + FailedPods result = TotalPods result \<and>
       FailedCoords result = filter (permanently_failed spawner5 faults_retry) (all_coords grid3))"
proof -
  have h1: "wf_state grid3" by code_simp
  have h2: "Size grid3 * Size grid3 + batchSize spawner5 < 2 ^ 63" by code_simp
  have n: "retryAttempts spawner5 = 3" by code_simp
  have v: "map_option (\<lambda>r. (fst r, fst (snd r), map podName (snd (snd r))))
       (SpawnGrid spawner5 faults_retry grid3 [])
     = Some (\<lparr>TotalPods = 9, CreatedPods = 7, FailedPods = 2,
               FailedCoords = [Coordinate 0 2, Coordinate 2 0]\<rparr>,
             Some (ErrSpawn 2),
             [''pod-0-0'', ''pod-0-1'', ''pod-1-0'', ''pod-1-1'', ''pod-1-2'', ''pod-2-1'',
              ''pod-2-2''])"
    by code_simp
  have a0: "fst (client_Create faults_retry 0 (buildCellPod spawner5 (Coordinate 1 1)) [])
              = Some ErrClient"
    by code_simp
  have a1: "map_prod id (map podName) (createPodWithRetry spawner5 faults_retry (Coordinate 1 1) [])
     = (None, [''pod-1-1''])"
    by code_simp
  have a2: "createPodWithRetry spawner5 faults_retry (Coordinate 0 2) []
     = (Some (ErrAttempts 3 (Some ErrClient)), [])"
    by code_simp
  have a3: "createPodWithRetry spawner5 faults_retry (Coordinate 2 0) [] = (Some ErrContext, [])"
    by code_simp
  have p: "filter (permanently_failed spawner5 faults_retry) (all_coords grid3)
     = [Coordinate 0 2, Coordinate 2 0]"
    by code_simp
  have t: "\<exists>result err ps'. SpawnGrid spawner5 faults_retry grid3 [] = Some (result, err, ps') \<and>
       CreatedPods result + FailedPods result = TotalPods result \<and>
       FailedCoords result = filter (permanently_failed spawner5 faults_retry) (all_coords grid3)"
    using SpawnGrid_best_effort[OF h1 h2[unfolded spawner5_def], of faults_retry "[]"]
    unfolding spawner5_def by blast
  show ?thesis by (intro conjI h1 h2 n v a0 a1 a2 a3 p t)
qed

text \<open>
  Nine coordinates in batches of five give nine pods; the same call again finds every pod in
  place, counts nine successes and no failure.
\<close>

lemma SpawnGrid_twice:
  "map_option (\<lambda>r. (fst r, fst (snd r), length (snd (snd r)))) (SpawnGrid spawner5 no_faults grid3 [])
     = Some (\<lparr>TotalPods = 9, CreatedPods = 9, FailedPods = 0, FailedCoords = []\<rparr>, None, 9) \<and>
   map_option (\<lambda>r. (fst r, fst (snd r), length (snd (snd r))))
       (case SpawnGrid spawner5 no_faults grid3 [] of
          None \<Rightarrow> None
        | Some (result, err, ps) \<Rightarrow> SpawnGrid spawner5 no_faults grid3 ps)
     = Some (\<lparr>TotalPods = 9, CreatedPods = 9, FailedPods = 0, FailedCoords = []\<rparr>, None, 9)"
  by code_simp

end
